theory Spec2Isabelle
  imports Main "HOL-Library.Word" "HOL-Library.Multiset"
begin

section \<open>JavaScript strings\<close>

text \<open>
  A JavaScript string is a sequence of 16-bit code units. The literals of \<^verbatim>\<open>App.vue\<close>
  are written with \<open>js\<close>; the two characters outside ASCII that occur in them
  (U+00ED and U+2705) are written as code units.
\<close>

type_synonym jsstring = "16 word list"

definition js :: "string \<Rightarrow> jsstring" where
  "js cs = map (\<lambda>c. of_char c) cs"

text \<open>
  \<^verbatim>\<open>String.prototype.trim\<close> removes the code points of the ECMAScript productions
  WhiteSpace and LineTerminator from both ends. All of them are in the basic plane, so
  the test is on single code units.
\<close>

definition isWhiteSpace :: "16 word \<Rightarrow> bool" where
  "isWhiteSpace c \<longleftrightarrow>
     c = 0x9 \<or> c = 0xA \<or> c = 0xB \<or> c = 0xC \<or> c = 0xD \<or> c = 0x20 \<or> c = 0xA0 \<or>
     c = 0x1680 \<or> (0x2000 \<le> c \<and> c \<le> 0x200A) \<or> c = 0x2028 \<or> c = 0x2029 \<or>
     c = 0x202F \<or> c = 0x205F \<or> c = 0x3000 \<or> c = 0xFEFF"

definition trim :: "jsstring \<Rightarrow> jsstring" where
  "trim s = rev (dropWhile isWhiteSpace (rev (dropWhile isWhiteSpace s)))"

text \<open>
  The decimal rendering of a non-negative integer, as a template literal produces it for
  \<^verbatim>\<open>data.length\<close>, \<^verbatim>\<open>retries + 1\<close> and \<^verbatim>\<open>delay\<close>.
\<close>

fun number_toString :: "nat \<Rightarrow> jsstring" where
  "number_toString n =
     (if n < 10 then [0x30 + of_nat n]
      else number_toString (n div 10) @ [0x30 + of_nat (n mod 10)])"

declare number_toString.simps [simp del]

section \<open>Data model\<close>

record Empleado =
  id_empleado :: int
  nombre :: jsstring

definition API_URL :: jsstring where
  "API_URL = js ''http://localhost:4001''"

definition MAX_RETRIES :: nat where
  "MAX_RETRIES = 3"

definition DELAY_MS :: nat where
  "DELAY_MS = 1000"

text \<open>
  The second argument of \<^verbatim>\<open>fetchWithRetry\<close>: the method and, for a write, the JSON
  object sent as body, kept as the list of its fields.
\<close>

record options =
  "method" :: jsstring
  data :: "(jsstring \<times> jsstring) list option"

text \<open>
  The interface \<^verbatim>\<open>Empleado\<close> is erased at run time: the elements of the array that
  the server sends are whatever objects its JSON holds. An element is either an object
  with the two properties of the interface, or an object with neither of them, kept as the
  list of its own fields; reading \<^verbatim>\<open>id_empleado\<close> or \<^verbatim>\<open>nombre\<close> on the latter
  gives \<^verbatim>\<open>undefined\<close>. Objects with only one of the two properties, and properties of
  another type than the interface says, are outside the model.
\<close>

datatype json = JNum int | JStr jsstring

datatype elemento = Emp Empleado | Sin "(jsstring \<times> json) list"

text \<open>
  What a response carries as \<^verbatim>\<open>response.data\<close>: an array of such elements, or a JSON
  value that is not an array (kept as its text), on which \<^verbatim>\<open>data.sort\<close> is not a
  function.
\<close>

datatype payload = Lista "elemento list" | Otro jsstring

record response =
  status :: nat
  response_data :: payload

text \<open>
  The values a \<^verbatim>\<open>catch\<close> of the component can receive: the two rejections of axios
  (no response at all, or a response whose status is outside 2xx) and the
  \<^verbatim>\<open>TypeError\<close> of calling \<^verbatim>\<open>sort\<close> on something that is not an array.
\<close>

datatype error = NetworkError jsstring | BadStatus nat payload | TypeError

section \<open>Environment: server, clock, timers, trace\<close>

text \<open>
  One operation of the page runs at a time, from its call to its end; while it waits for
  the network or for a backoff delay, the only other code that runs is the callback of a
  timer that has come due. The server is an oracle: the answer to the \<open>n\<close>-th request
  issued by the page, with the time in milliseconds it takes to arrive.
\<close>

datatype reply = NoReply jsstring | Reply nat payload

type_synonym server = "nat \<Rightarrow> jsstring \<Rightarrow> options \<Rightarrow> nat \<times> reply"

datatype event =
    Request jsstring options
  | ConsoleWarn jsstring error
  | ConsoleError error
  | Delay nat

fun n_requests :: "event list \<Rightarrow> nat" where
  "n_requests [] = 0"
| "n_requests (Request u opts # es) = Suc (n_requests es)"
| "n_requests (e # es) = n_requests es"

fun delays_of :: "event list \<Rightarrow> nat list" where
  "delays_of [] = []"
| "delays_of (Delay d # es) = d # delays_of es"
| "delays_of (e # es) = delays_of es"

text \<open>
  The refs of the component, the module variable \<^verbatim>\<open>mensajeTimeoutId\<close>, and the
  environment one run of an operation sees: a clock in milliseconds, the pending
  auto-clear timers as pairs of identifier and deadline, the next timer identifier, and
  the trace of requests, console output and backoff delays.
\<close>

record app =
  empleados :: "elemento list"
  isLoading :: bool
  esError :: bool
  mensajeEstado :: jsstring
  nombreInput :: jsstring
  mensajeTimeoutId :: "nat option"
  clock :: nat
  timers :: "(nat \<times> nat) list"
  next_timer :: nat
  trace :: "event list"

definition clearTimeout :: "nat \<Rightarrow> app \<Rightarrow> app" where
  "clearTimeout i s = s\<lparr>timers := filter (\<lambda>(j, due). j \<noteq> i) (timers s)\<rparr>"

definition setTimeout :: "nat \<Rightarrow> app \<Rightarrow> nat \<times> app" where
  "setTimeout ms s =
     (next_timer s,
      s\<lparr>timers := timers s @ [(next_timer s, clock s + ms)],
        next_timer := Suc (next_timer s)\<rparr>)"

text \<open>The arrow function that \<^verbatim>\<open>mostrarMensaje\<close> hands to \<^verbatim>\<open>setTimeout\<close>.\<close>

definition mensaje_timeout_callback :: "app \<Rightarrow> app" where
  "mensaje_timeout_callback s = s\<lparr>mensajeEstado := [], mensajeTimeoutId := None\<rparr>"

text \<open>
  Letting \<open>ms\<close> milliseconds pass: every pending timer whose deadline is reached leaves
  the queue and its callback runs, in queue order.
\<close>

definition advance :: "nat \<Rightarrow> app \<Rightarrow> app" where
  "advance ms s =
     (let t = clock s + ms;
          due = filter (\<lambda>(i, at). at \<le> t) (timers s);
          waiting = filter (\<lambda>(i, at). \<not> at \<le> t) (timers s)
      in (fold (\<lambda>_. mensaje_timeout_callback) due (s\<lparr>timers := waiting\<rparr>))\<lparr>clock := t\<rparr>)"

text \<open>
  \<^verbatim>\<open>await new Promise(resolve => setTimeout(resolve, delay))\<close>: the timer takes an
  identifier, and the caller resumes once the delay has passed.
\<close>

definition sleep :: "nat \<Rightarrow> app \<Rightarrow> app" where
  "sleep ms s =
     advance ms (s\<lparr>next_timer := Suc (next_timer s), trace := trace s @ [Delay ms]\<rparr>)"

section \<open>Sorting and rendering\<close>

text \<open>
  The comparator \<^verbatim>\<open>(a, b) => a.id_empleado - b.id_empleado\<close>. Its result is a number,
  or \<^verbatim>\<open>NaN\<close> (here \<open>None\<close>) when one of the two reads gives \<^verbatim>\<open>undefined\<close>.
\<close>

definition leer_id_empleado :: "elemento \<Rightarrow> int option" where
  "leer_id_empleado a = (case a of Emp e \<Rightarrow> Some (id_empleado e) | Sin fs \<Rightarrow> None)"

definition leer_nombre :: "elemento \<Rightarrow> jsstring option" where
  "leer_nombre a = (case a of Emp e \<Rightarrow> Some (nombre e) | Sin fs \<Rightarrow> None)"

definition comparefn :: "elemento \<Rightarrow> elemento \<Rightarrow> int option" where
  "comparefn a b =
     (case (leer_id_empleado a, leer_id_empleado b) of
        (Some x, Some y) \<Rightarrow> Some (x - y)
      | _ \<Rightarrow> None)"

text \<open>
  \<^verbatim>\<open>Array.prototype.sort\<close>: the abstract operation SortCompare of ECMAScript takes a
  comparator result that is \<^verbatim>\<open>NaN\<close> for \<open>+0\<close>, and the sort is stable. For a comparator
  that is not consistent (here: an array that mixes elements with and without an
  \<^verbatim>\<open>id_empleado\<close>) the standard leaves the order to the implementation; the insertion
  sort below is one such implementation, and every other one gives the same result on the
  arrays with a consistent comparator.
\<close>

definition SortCompare :: "elemento \<Rightarrow> elemento \<Rightarrow> int" where
  "SortCompare a b = (case comparefn a b of None \<Rightarrow> 0 | Some v \<Rightarrow> v)"

fun insert_sorted :: "elemento \<Rightarrow> elemento list \<Rightarrow> elemento list" where
  "insert_sorted a [] = [a]"
| "insert_sorted a (b # bs) =
     (if SortCompare a b \<le> 0 then a # b # bs else b # insert_sorted a bs)"

definition Array_sort :: "elemento list \<Rightarrow> elemento list" where
  "Array_sort xs = foldr insert_sorted xs []"

text \<open>
  What the template interpolates in the row of one element of the list: the value of
  \<^verbatim>\<open>empleado.nombre\<close> and, after the sign \<^verbatim>\<open>#\<close>, the value of
  \<^verbatim>\<open>empleado.id_empleado\<close>. A value that is \<^verbatim>\<open>undefined\<close> (here \<open>None\<close>) renders as
  the empty string.
\<close>

definition fila :: "elemento \<Rightarrow> jsstring option \<times> int option" where
  "fila a = (leer_nombre a, leer_id_empleado a)"

section \<open>The component\<close>

definition mostrarMensaje :: "jsstring \<Rightarrow> bool \<Rightarrow> app \<Rightarrow> app" where
  "mostrarMensaje mensaje err s =
     (let s1 = (case mensajeTimeoutId s of Some i \<Rightarrow> clearTimeout i s | None \<Rightarrow> s);
          s2 = s1\<lparr>mensajeEstado := mensaje, esError := err\<rparr>
      in if \<not> err then
           (case setTimeout 4000 s2 of (i, s3) \<Rightarrow> s3\<lparr>mensajeTimeoutId := Some i\<rparr>)
         else s2)"

text \<open>
  axios with its default \<^verbatim>\<open>validateStatus\<close>: the promise resolves for a status in
  200..299 and rejects otherwise, and rejects when no response arrives.
\<close>

definition settle :: "reply \<Rightarrow> error + response" where
  "settle r =
     (case r of
        NoReply m \<Rightarrow> Inl (NetworkError m)
      | Reply st body \<Rightarrow>
          if 200 \<le> st \<and> st < 300 then Inr \<lparr>status = st, response_data = body\<rparr>
          else Inl (BadStatus st body))"

definition axios :: "server \<Rightarrow> jsstring \<Rightarrow> options \<Rightarrow> app \<Rightarrow> (error + response) \<times> app" where
  "axios srv url opts s =
     (case srv (n_requests (trace s)) url opts of
        (latency, r) \<Rightarrow>
          (settle r, advance latency (s\<lparr>trace := trace s @ [Request url opts]\<rparr>)))"

definition retry_warning :: "nat \<Rightarrow> nat \<Rightarrow> jsstring" where
  "retry_warning retries delay =
     js ''Intento '' @ number_toString (retries + 1) @
     js '' fallido. Reintentando en '' @ number_toString delay @ js ''ms...''"

definition console_warn :: "jsstring \<Rightarrow> error \<Rightarrow> app \<Rightarrow> app" where
  "console_warn m e s = s\<lparr>trace := trace s @ [ConsoleWarn m e]\<rparr>"

definition console_error :: "error \<Rightarrow> app \<Rightarrow> app" where
  "console_error e s = s\<lparr>trace := trace s @ [ConsoleError e]\<rparr>"

function fetchWithRetry ::
  "server \<Rightarrow> jsstring \<Rightarrow> options \<Rightarrow> nat \<Rightarrow> app \<Rightarrow> (error + response) \<times> app" where
  "fetchWithRetry srv url opts retries s =
     (case axios srv url opts s of
        (Inr resp, s1) \<Rightarrow> (Inr resp, s1)
      | (Inl err, s1) \<Rightarrow>
          if retries < MAX_RETRIES then
            let delay = DELAY_MS * 2 ^ retries;
                s2 = console_warn (retry_warning retries delay) err s1;
                s3 = sleep delay s2
            in fetchWithRetry srv url opts (retries + 1) s3
          else (Inl err, s1))"
  by pat_completeness auto
termination
  by (relation "measure (\<lambda>(srv, url, opts, retries, s). MAX_RETRIES - retries)") auto

declare fetchWithRetry.simps [simp del]

definition lista_actualizada :: "nat \<Rightarrow> jsstring" where
  "lista_actualizada n =
     js ''Lista actualizada ('' @ number_toString n @ js '') empleados''"

definition obtenerEmpleados_catch :: "error \<Rightarrow> app \<Rightarrow> app" where
  "obtenerEmpleados_catch e s =
     (mostrarMensaje (js ''Error al conectar con el servidor.'') True (console_error e s))
       \<lparr>esError := True\<rparr>"

definition obtenerEmpleados :: "server \<Rightarrow> app \<Rightarrow> app" where
  "obtenerEmpleados srv s =
     (let s1 = s\<lparr>isLoading := True, empleados := [], esError := False\<rparr>;
          s4 = (case fetchWithRetry srv (API_URL @ js ''/empleado'')
                       \<lparr>method = js ''GET'', data = None\<rparr> 0 s1 of
                  (Inr resp, s2) \<Rightarrow>
                    (case response_data resp of
                       Lista d \<Rightarrow>
                         mostrarMensaje (lista_actualizada (length d)) False
                           (s2\<lparr>empleados := Array_sort d\<rparr>)
                     | Otro v \<Rightarrow> obtenerEmpleados_catch TypeError s2)
                | (Inl e, s2) \<Rightarrow> obtenerEmpleados_catch e s2)
      in s4\<lparr>isLoading := False\<rparr>)"

definition nombre_vacio :: jsstring where
  "nombre_vacio = js ''El nombre no puede estar vac'' @ [0xED] @ js ''o.''"

definition empleado_agregado :: "jsstring \<Rightarrow> jsstring" where
  "empleado_agregado n =
     js ''Empleado '' @ [0x22] @ n @ [0x22] @ js '' agregado '' @ [0x2705]"

definition agregarEmpleado :: "server \<Rightarrow> app \<Rightarrow> app" where
  "agregarEmpleado srv s =
     (let n = trim (nombreInput s)
      in if n = [] then mostrarMensaje nombre_vacio True s
         else
           let s1 = s\<lparr>isLoading := True\<rparr>;
               s5 = (case fetchWithRetry srv (API_URL @ js ''/empleado'')
                            \<lparr>method = js ''POST'', data = Some [(js ''nombre'', n)]\<rparr> 0 s1 of
                       (Inr resp, s2) \<Rightarrow>
                         obtenerEmpleados srv
                           (mostrarMensaje (empleado_agregado n) False
                              (s2\<lparr>nombreInput := []\<rparr>))
                     | (Inl e, s2) \<Rightarrow>
                         mostrarMensaje (js ''Error al agregar empleado.'') True s2)
           in s5\<lparr>isLoading := False\<rparr>)"

text \<open>The state of the page when the script has run and nothing has happened yet.\<close>

definition initial :: app where
  "initial =
     \<lparr>empleados = [], isLoading = False, esError = False, mensajeEstado = [],
      nombreInput = [], mensajeTimeoutId = None, clock = 0, timers = [],
      next_timer = 1, trace = []\<rparr>"

abbreviation endpoint :: jsstring where
  "endpoint \<equiv> API_URL @ js ''/empleado''"

abbreviation GET_options :: options where
  "GET_options \<equiv> \<lparr>method = js ''GET'', data = None\<rparr>"

abbreviation POST_options :: "jsstring \<Rightarrow> options" where
  "POST_options n \<equiv> \<lparr>method = js ''POST'', data = Some [(js ''nombre'', n)]\<rparr>"

abbreviation loading :: "app \<Rightarrow> app" where
  "loading s \<equiv> s\<lparr>isLoading := True, empleados := [], esError := False\<rparr>"

section \<open>Vocabulary of the properties\<close>

text \<open>
  \<open>rejects srv url opts n errs\<close>: the requests number \<open>n\<close>, \<open>n + 1\<close>, ... for \<open>url\<close> and
  \<open>opts\<close> fail, with the errors \<open>errs\<close> in this order. \<open>accepts srv url opts n resp\<close>:
  request number \<open>n\<close> succeeds with \<open>resp\<close>.
\<close>

definition rejects :: "server \<Rightarrow> jsstring \<Rightarrow> options \<Rightarrow> nat \<Rightarrow> error list \<Rightarrow> bool" where
  "rejects srv url opts n errs \<longleftrightarrow>
     map (\<lambda>i. settle (snd (srv (n + i) url opts))) [0..<length errs] = map Inl errs"

definition accepts :: "server \<Rightarrow> jsstring \<Rightarrow> options \<Rightarrow> nat \<Rightarrow> response \<Rightarrow> bool" where
  "accepts srv url opts n resp \<longleftrightarrow> settle (snd (srv n url opts)) = Inr resp"

text \<open>
  The backoff schedule as the specification words it: each failed attempt is followed by
  its warning and by a delay of \<open>1000 * 2 ^ attempt\<close> milliseconds.
\<close>

fun backoff_trace :: "jsstring \<Rightarrow> options \<Rightarrow> nat \<Rightarrow> error list \<Rightarrow> event list" where
  "backoff_trace url opts attempt [] = []"
| "backoff_trace url opts attempt (e # es) =
     [Request url opts,
      ConsoleWarn (retry_warning attempt (1000 * 2 ^ attempt)) e,
      Delay (1000 * 2 ^ attempt)] @ backoff_trace url opts (Suc attempt) es"

text \<open>
  The invariant of the timer queue: at most one auto-clear timer is pending, and it is
  the one \<^verbatim>\<open>mensajeTimeoutId\<close> names.
\<close>

definition one_timer :: "app \<Rightarrow> bool" where
  "one_timer s =
     (case timers s of
        [] \<Rightarrow> True
      | [(i, at)] \<Rightarrow> mensajeTimeoutId s = Some i
      | _ \<Rightarrow> False)"

text \<open>A server that answers from a script, and then always the same.\<close>

definition scripted :: "(nat \<times> reply) list \<Rightarrow> nat \<times> reply \<Rightarrow> server" where
  "scripted rs dflt n url opts = (if n < length rs then rs ! n else dflt)"

definition B3 :: elemento where
  "B3 = Emp \<lparr>id_empleado = 3, nombre = js ''B''\<rparr>"

definition A1 :: elemento where
  "A1 = Emp \<lparr>id_empleado = 1, nombre = js ''A''\<rparr>"

text \<open>
  The two objects of the scenario of the specification, with the names of the fields as
  it writes them, and a server that always answers with them.
\<close>

definition B3_employee :: elemento where
  "B3_employee = Sin [(js ''id_employee'', JNum 3), (js ''name'', JStr (js ''B''))]"

definition A1_employee :: elemento where
  "A1_employee = Sin [(js ''id_employee'', JNum 1), (js ''name'', JStr (js ''A''))]"

definition anglophone :: server where
  "anglophone = scripted [] (30, Reply 200 (Lista [B3_employee, A1_employee]))"

text \<open>
  The number that a string of decimal digits denotes, to say what the count in the
  success message is.
\<close>

definition decimal_value :: "jsstring \<Rightarrow> nat" where
  "decimal_value ds = foldl (\<lambda>acc c. 10 * acc + unat (c - 0x30)) 0 ds"

text \<open>
  Three servers for the scenarios: one that fails twice (no answer, then status 503) and
  then answers every request with the two employees of the specification's example, one
  that never answers, and one that always answers with the two employees.
\<close>

definition flaky :: server where
  "flaky = scripted [(50, NoReply (js ''Network Error'')), (50, Reply 503 (Otro []))]
             (30, Reply 200 (Lista [B3, A1]))"

definition down :: server where
  "down = scripted [] (20, NoReply (js ''Network Error''))"

definition healthy :: server where
  "healthy = scripted [] (30, Reply 200 (Lista [B3, A1]))"

text \<open>The page after the user has typed \<open>v\<close> into the form.\<close>

definition typed :: "jsstring \<Rightarrow> app" where
  "typed v = initial\<lparr>nombreInput := v\<rparr>"

text \<open>
  Every code unit that \<^verbatim>\<open>trim\<close> removes, once: an input that is blank without being
  made of spaces.
\<close>

definition all_white_space :: jsstring where
  "all_white_space =
     [0x9, 0xA, 0xB, 0xC, 0xD, 0x20, 0xA0, 0x1680, 0x2000, 0x2001, 0x2002, 0x2003, 0x2004,
      0x2005, 0x2006, 0x2007, 0x2008, 0x2009, 0x200A, 0x2028, 0x2029, 0x202F, 0x205F, 0x3000,
      0xFEFF]"

text \<open>The page showing the two employees, with nothing pending.\<close>

definition listed :: app where
  "listed = initial\<lparr>empleados := [A1, B3]\<rparr>"

text \<open>
  A server whose first four answers are failures of both kinds: no answer, status 500,
  status 404, no answer.
\<close>

definition mixed :: server where
  "mixed = scripted [(20, NoReply (js ''timeout'')), (20, Reply 500 (Otro [])),
                     (20, Reply 404 (Otro [])), (20, NoReply (js ''timeout''))]
             (30, Reply 200 (Lista [B3, A1]))"

text \<open>
  \<open>refresh_failed srv s\<close>: the run of \<^verbatim>\<open>obtenerEmpleados\<close> from \<open>s\<close> ends in its
  \<^verbatim>\<open>catch\<close> block, because the retrying client raised or because the response was
  not an array.
\<close>

definition refresh_failed :: "server \<Rightarrow> app \<Rightarrow> bool" where
  "refresh_failed srv s =
     (case fst (fetchWithRetry srv (API_URL @ js ''/empleado'')
                  \<lparr>method = js ''GET'', data = None\<rparr> 0
                  (s\<lparr>isLoading := True, empleados := [], esError := False\<rparr>)) of
        Inl e \<Rightarrow> True
      | Inr resp \<Rightarrow> (case response_data resp of Lista d \<Rightarrow> False | Otro v \<Rightarrow> True))"

section \<open>The environment and one request\<close>

lemma n_requests_append: "n_requests (xs @ ys) = n_requests xs + n_requests ys"
  by (induction xs rule: n_requests.induct) simp_all

lemma delays_of_append: "delays_of (xs @ ys) = delays_of xs @ delays_of ys"
  by (induction xs rule: delays_of.induct) simp_all

lemma fold_callback:
  "fold (\<lambda>_. mensaje_timeout_callback) xs s = (if xs = [] then s else mensaje_timeout_callback s)"
  by (induction xs arbitrary: s) (simp_all add: mensaje_timeout_callback_def)

lemma advance_frame:
  "trace (advance ms s) = trace s"
  "empleados (advance ms s) = empleados s"
  "isLoading (advance ms s) = isLoading s"
  "esError (advance ms s) = esError s"
  "nombreInput (advance ms s) = nombreInput s"
  "next_timer (advance ms s) = next_timer s"
  "clock (advance ms s) = clock s + ms"
  by (simp_all add: advance_def Let_def fold_callback mensaje_timeout_callback_def)

lemma advance_no_timers:
  "timers s = [] \<Longrightarrow> advance ms s = s\<lparr>clock := clock s + ms\<rparr>"
  by (simp add: advance_def)

lemma advance_one_early:
  "timers s = [(i, at)] \<Longrightarrow> clock s + ms < at \<Longrightarrow> advance ms s = s\<lparr>clock := clock s + ms\<rparr>"
  by (simp add: advance_def)

lemma advance_one_due:
  "timers s = [(i, at)] \<Longrightarrow> at \<le> clock s + ms \<Longrightarrow>
   advance ms s = s\<lparr>timers := [], mensajeEstado := [], mensajeTimeoutId := None, clock := clock s + ms\<rparr>"
  by (simp add: advance_def mensaje_timeout_callback_def)

lemma sleep_frame:
  "trace (sleep ms s) = trace s @ [Delay ms]"
  "empleados (sleep ms s) = empleados s"
  "isLoading (sleep ms s) = isLoading s"
  "esError (sleep ms s) = esError s"
  "nombreInput (sleep ms s) = nombreInput s"
  by (simp_all add: sleep_def advance_frame)

lemma console_warn_frame:
  "trace (console_warn m e s) = trace s @ [ConsoleWarn m e]"
  "empleados (console_warn m e s) = empleados s"
  "isLoading (console_warn m e s) = isLoading s"
  "esError (console_warn m e s) = esError s"
  "nombreInput (console_warn m e s) = nombreInput s"
  "timers (console_warn m e s) = timers s"
  "mensajeTimeoutId (console_warn m e s) = mensajeTimeoutId s"
  by (simp_all add: console_warn_def)

lemma axios_fst: "fst (axios srv url opts s) = settle (snd (srv (n_requests (trace s)) url opts))"
  by (simp add: axios_def split: prod.splits)

lemma axios_frame:
  "trace (snd (axios srv url opts s)) = trace s @ [Request url opts]"
  "empleados (snd (axios srv url opts s)) = empleados s"
  "isLoading (snd (axios srv url opts s)) = isLoading s"
  "esError (snd (axios srv url opts s)) = esError s"
  "nombreInput (snd (axios srv url opts s)) = nombreInput s"
  by (simp_all add: axios_def advance_frame split: prod.splits)

lemma fetch_ok:
  "settle (snd (srv (n_requests (trace s)) url opts)) = Inr resp \<Longrightarrow>
   fetchWithRetry srv url opts retries s = (Inr resp, snd (axios srv url opts s))"
  using axios_fst [of srv url opts s]
  by (cases "axios srv url opts s") (subst fetchWithRetry.simps, simp)

lemma fetch_last:
  "settle (snd (srv (n_requests (trace s)) url opts)) = Inl e \<Longrightarrow> \<not> retries < MAX_RETRIES \<Longrightarrow>
   fetchWithRetry srv url opts retries s = (Inl e, snd (axios srv url opts s))"
  using axios_fst [of srv url opts s]
  by (cases "axios srv url opts s") (subst fetchWithRetry.simps, simp)

lemma fetch_retry:
  "settle (snd (srv (n_requests (trace s)) url opts)) = Inl e \<Longrightarrow> retries < MAX_RETRIES \<Longrightarrow>
   fetchWithRetry srv url opts retries s =
     fetchWithRetry srv url opts (Suc retries)
       (sleep (DELAY_MS * 2 ^ retries)
          (console_warn (retry_warning retries (DELAY_MS * 2 ^ retries)) e
             (snd (axios srv url opts s))))"
  using axios_fst [of srv url opts s]
  by (cases "axios srv url opts s") (subst fetchWithRetry.simps, simp add: Let_def)

section \<open>The timer invariant\<close>

lemma one_timer_iff:
  "one_timer s \<longleftrightarrow>
     timers s = [] \<or> (\<exists>i at. timers s = [(i, at)] \<and> mensajeTimeoutId s = Some i)"
  by (auto simp: one_timer_def split: list.splits)

lemma fetch_preserves:
  assumes ax: "\<And>s. P s \<Longrightarrow> P (snd (axios srv url opts s))"
    and sl: "\<And>s m e ms. P s \<Longrightarrow> P (sleep ms (console_warn m e s))"
    and s: "P s"
  shows "P (snd (fetchWithRetry srv url opts retries s))"
  using s
proof (induction "MAX_RETRIES - retries" arbitrary: retries s)
  case 0
  show ?case
  proof (cases "settle (snd (srv (n_requests (trace s)) url opts))")
    case (Inl e)
    with 0 show ?thesis by (simp add: fetch_last ax)
  next
    case (Inr r)
    with 0 show ?thesis by (simp add: fetch_ok ax)
  qed
next
  case (Suc k)
  then have lt: "retries < MAX_RETRIES" and k: "k = MAX_RETRIES - Suc retries" by simp_all
  show ?case
  proof (cases "settle (snd (srv (n_requests (trace s)) url opts))")
    case (Inl e)
    have step: "fetchWithRetry srv url opts retries s =
        fetchWithRetry srv url opts (Suc retries)
          (sleep (DELAY_MS * 2 ^ retries)
             (console_warn (retry_warning retries (DELAY_MS * 2 ^ retries)) e
                (snd (axios srv url opts s))))"
      using Inl lt by (rule fetch_retry)
    show ?thesis
      unfolding step
      by (rule Suc.hyps(1) [OF k]) (intro sl ax Suc.prems)
  next
    case (Inr r)
    with Suc.prems show ?thesis by (simp add: fetch_ok ax)
  qed
qed

lemma fetch_frame:
  "empleados (snd (fetchWithRetry srv url opts retries s)) = empleados s"
  "isLoading (snd (fetchWithRetry srv url opts retries s)) = isLoading s"
  "esError (snd (fetchWithRetry srv url opts retries s)) = esError s"
  "nombreInput (snd (fetchWithRetry srv url opts retries s)) = nombreInput s"
proof -
  have "empleados (snd (fetchWithRetry srv url opts retries s)) = empleados s \<and>
        isLoading (snd (fetchWithRetry srv url opts retries s)) = isLoading s \<and>
        esError (snd (fetchWithRetry srv url opts retries s)) = esError s \<and>
        nombreInput (snd (fetchWithRetry srv url opts retries s)) = nombreInput s"
    by (rule fetch_preserves [where P = "\<lambda>t. empleados t = empleados s \<and>
          isLoading t = isLoading s \<and> esError t = esError s \<and> nombreInput t = nombreInput s"])
       (simp_all add: axios_frame sleep_frame console_warn_frame)
  then show
    "empleados (snd (fetchWithRetry srv url opts retries s)) = empleados s"
    "isLoading (snd (fetchWithRetry srv url opts retries s)) = isLoading s"
    "esError (snd (fetchWithRetry srv url opts retries s)) = esError s"
    "nombreInput (snd (fetchWithRetry srv url opts retries s)) = nombreInput s"
    by simp_all
qed

lemma one_timer_advance: "one_timer s \<Longrightarrow> one_timer (advance ms s)"
proof -
  assume "one_timer s"
  then consider "timers s = []"
    | i at where "timers s = [(i, at)]" "mensajeTimeoutId s = Some i"
    by (auto simp: one_timer_iff)
  then show ?thesis
  proof cases
    case 1
    then show ?thesis by (simp add: advance_no_timers one_timer_iff)
  next
    case 2
    then show ?thesis
      by (cases "at \<le> clock s + ms")
         (simp_all add: advance_one_due advance_one_early one_timer_iff)
  qed
qed

lemma one_timer_sleep_warn: "one_timer s \<Longrightarrow> one_timer (sleep ms (console_warn m e s))"
proof -
  assume "one_timer s"
  then have "one_timer (console_warn m e s\<lparr>next_timer := Suc (next_timer (console_warn m e s)),
      trace := trace (console_warn m e s) @ [Delay ms]\<rparr>)"
    by (simp add: one_timer_iff console_warn_def)
  then show ?thesis unfolding sleep_def by (rule one_timer_advance)
qed

lemma one_timer_axios: "one_timer s \<Longrightarrow> one_timer (snd (axios srv url opts s))"
proof -
  assume "one_timer s"
  then have "one_timer (s\<lparr>trace := trace s @ [Request url opts]\<rparr>)"
    by (simp add: one_timer_iff)
  then show ?thesis
    by (simp add: axios_def one_timer_advance split: prod.splits)
qed

lemma one_timer_fetch:
  "one_timer s \<Longrightarrow> one_timer (snd (fetchWithRetry srv url opts retries s))"
  by (rule fetch_preserves) (simp_all add: one_timer_axios one_timer_sleep_warn)

lemma mostrarMensaje_error:
  "one_timer s \<Longrightarrow>
   mostrarMensaje m True s = s\<lparr>timers := [], mensajeEstado := m, esError := True\<rparr>"
  by (auto simp: mostrarMensaje_def one_timer_iff clearTimeout_def
           split: option.splits)

lemma mostrarMensaje_success:
  "one_timer s \<Longrightarrow>
   mostrarMensaje m False s =
     s\<lparr>timers := [(next_timer s, clock s + 4000)], next_timer := Suc (next_timer s),
       mensajeEstado := m, esError := False, mensajeTimeoutId := Some (next_timer s)\<rparr>"
  by (auto simp: mostrarMensaje_def one_timer_iff clearTimeout_def setTimeout_def
           split: option.splits)

lemma one_timer_mostrarMensaje: "one_timer s \<Longrightarrow> one_timer (mostrarMensaje m err s)"
  by (cases err) (simp_all add: mostrarMensaje_error mostrarMensaje_success one_timer_iff)

lemma one_timer_initial: "one_timer initial"
  by (simp add: one_timer_iff initial_def)

lemma mostrarMensaje_frame:
  "mensajeEstado (mostrarMensaje m err s) = m"
  "esError (mostrarMensaje m err s) = err"
  "empleados (mostrarMensaje m err s) = empleados s"
  "isLoading (mostrarMensaje m err s) = isLoading s"
  "nombreInput (mostrarMensaje m err s) = nombreInput s"
  "trace (mostrarMensaje m err s) = trace s"
  "clock (mostrarMensaje m err s) = clock s"
  by (simp_all add: mostrarMensaje_def clearTimeout_def setTimeout_def Let_def
               split: option.splits)

lemma fold_advance_no_timers:
  "timers s = [] \<Longrightarrow> fold advance mss s = s\<lparr>clock := clock s + sum_list mss\<rparr>"
proof (induction mss arbitrary: s)
  case Nil
  then show ?case by simp
next
  case (Cons ms mss)
  then show ?case by (simp add: advance_no_timers add.assoc)
qed

lemma success_then_wait_early:
  assumes "one_timer s" "ms < 4000"
  shows "advance ms (mostrarMensaje m False s) =
         (mostrarMensaje m False s)\<lparr>clock := clock s + ms\<rparr>"
  using assms
  by (subst advance_one_early [where i = "next_timer s" and at = "clock s + 4000"])
     (simp_all add: mostrarMensaje_success)

lemma success_then_wait_due:
  assumes "one_timer s" "4000 \<le> ms"
  shows "advance ms (mostrarMensaje m False s) =
         (mostrarMensaje m False s)\<lparr>timers := [], mensajeEstado := [],
            mensajeTimeoutId := None, clock := clock s + ms\<rparr>"
  using assms
  by (subst advance_one_due [where i = "next_timer s" and at = "clock s + 4000"])
     (simp_all add: mostrarMensaje_success)

section \<open>The controller\<close>

lemma trim_empty_iff: "trim s = [] \<longleftrightarrow> (\<forall>c\<in>set s. isWhiteSpace c)"
proof -
  have "trim s = [] \<longleftrightarrow> (\<forall>c\<in>set (dropWhile isWhiteSpace s). isWhiteSpace c)"
    by (simp add: trim_def dropWhile_eq_Nil_conv)
  also have "\<dots> \<longleftrightarrow> (\<forall>c\<in>set s. isWhiteSpace c)"
  proof
    assume all: "\<forall>c\<in>set (dropWhile isWhiteSpace s). isWhiteSpace c"
    have "dropWhile isWhiteSpace s = []"
    proof (rule ccontr)
      assume ne: "dropWhile isWhiteSpace s \<noteq> []"
      then have "\<not> isWhiteSpace (hd (dropWhile isWhiteSpace s))" by (rule hd_dropWhile)
      moreover have "hd (dropWhile isWhiteSpace s) \<in> set (dropWhile isWhiteSpace s)"
        using ne by simp
      ultimately show False using all by blast
    qed
    then show "\<forall>c\<in>set s. isWhiteSpace c" by (simp add: dropWhile_eq_Nil_conv)
  next
    assume "\<forall>c\<in>set s. isWhiteSpace c"
    then show "\<forall>c\<in>set (dropWhile isWhiteSpace s). isWhiteSpace c"
      by (blast dest: set_dropWhileD)
  qed
  finally show ?thesis .
qed

lemma obtenerEmpleados_ok:
  assumes "fst (fetchWithRetry srv endpoint GET_options 0 (loading s)) = Inr resp"
    and "response_data resp = Lista d"
  shows "obtenerEmpleados srv s =
         (mostrarMensaje (lista_actualizada (length d)) False
            ((snd (fetchWithRetry srv endpoint GET_options 0 (loading s)))
               \<lparr>empleados := Array_sort d\<rparr>))\<lparr>isLoading := False\<rparr>"
  using assms
  by (cases "fetchWithRetry srv endpoint GET_options 0 (loading s)")
     (simp add: obtenerEmpleados_def)

lemma obtenerEmpleados_rejected:
  assumes "fst (fetchWithRetry srv endpoint GET_options 0 (loading s)) = Inl e"
  shows "obtenerEmpleados srv s =
         (obtenerEmpleados_catch e (snd (fetchWithRetry srv endpoint GET_options 0 (loading s))))
           \<lparr>isLoading := False\<rparr>"
  using assms
  by (cases "fetchWithRetry srv endpoint GET_options 0 (loading s)")
     (simp add: obtenerEmpleados_def)

lemma obtenerEmpleados_not_array:
  assumes "fst (fetchWithRetry srv endpoint GET_options 0 (loading s)) = Inr resp"
    and "response_data resp = Otro v"
  shows "obtenerEmpleados srv s =
         (obtenerEmpleados_catch TypeError (snd (fetchWithRetry srv endpoint GET_options 0 (loading s))))
           \<lparr>isLoading := False\<rparr>"
  using assms
  by (cases "fetchWithRetry srv endpoint GET_options 0 (loading s)")
     (simp add: obtenerEmpleados_def)

lemma catch_frame:
  "mensajeEstado (obtenerEmpleados_catch e s) = js ''Error al conectar con el servidor.''"
  "esError (obtenerEmpleados_catch e s)"
  "empleados (obtenerEmpleados_catch e s) = empleados s"
  "nombreInput (obtenerEmpleados_catch e s) = nombreInput s"
  "trace (obtenerEmpleados_catch e s) = trace s @ [ConsoleError e]"
  by (simp_all add: obtenerEmpleados_catch_def mostrarMensaje_frame console_error_def)

lemma agregarEmpleado_blank:
  "trim (nombreInput s) = [] \<Longrightarrow> agregarEmpleado srv s = mostrarMensaje nombre_vacio True s"
  by (simp add: agregarEmpleado_def)

lemma agregarEmpleado_ok:
  assumes "trim (nombreInput s) \<noteq> []"
    and "fst (fetchWithRetry srv endpoint (POST_options (trim (nombreInput s))) 0
           (s\<lparr>isLoading := True\<rparr>)) = Inr resp"
  shows "agregarEmpleado srv s =
         (obtenerEmpleados srv
            (mostrarMensaje (empleado_agregado (trim (nombreInput s))) False
               ((snd (fetchWithRetry srv endpoint (POST_options (trim (nombreInput s))) 0
                        (s\<lparr>isLoading := True\<rparr>)))\<lparr>nombreInput := []\<rparr>)))\<lparr>isLoading := False\<rparr>"
  using assms
  by (cases "fetchWithRetry srv endpoint (POST_options (trim (nombreInput s))) 0
               (s\<lparr>isLoading := True\<rparr>)")
     (simp add: agregarEmpleado_def Let_def)

lemma agregarEmpleado_rejected:
  assumes "trim (nombreInput s) \<noteq> []"
    and "fst (fetchWithRetry srv endpoint (POST_options (trim (nombreInput s))) 0
           (s\<lparr>isLoading := True\<rparr>)) = Inl e"
  shows "agregarEmpleado srv s =
         (mostrarMensaje (js ''Error al agregar empleado.'') True
            (snd (fetchWithRetry srv endpoint (POST_options (trim (nombreInput s))) 0
                        (s\<lparr>isLoading := True\<rparr>))))\<lparr>isLoading := False\<rparr>"
  using assms
  by (cases "fetchWithRetry srv endpoint (POST_options (trim (nombreInput s))) 0
               (s\<lparr>isLoading := True\<rparr>)")
     (simp add: agregarEmpleado_def Let_def)

lemma fetch_cong:
  assumes "\<forall>n\<ge>n_requests (trace s). srv n = srv' n"
  shows "fetchWithRetry srv url opts retries s = fetchWithRetry srv' url opts retries s"
  using assms
proof (induction "MAX_RETRIES - retries" arbitrary: retries s)
  case 0
  then have same: "srv (n_requests (trace s)) = srv' (n_requests (trace s))" by simp
  then have ax: "axios srv url opts s = axios srv' url opts s" by (simp add: axios_def)
  show ?case
  proof (cases "settle (snd (srv (n_requests (trace s)) url opts))")
    case (Inl e)
    with 0 same ax show ?thesis by (simp add: fetch_last)
  next
    case (Inr r)
    with same ax show ?thesis by (simp add: fetch_ok)
  qed
next
  case (Suc k)
  then have lt: "retries < MAX_RETRIES" and k: "k = MAX_RETRIES - Suc retries" by simp_all
  from Suc.prems have same: "srv (n_requests (trace s)) = srv' (n_requests (trace s))" by simp
  then have ax: "axios srv url opts s = axios srv' url opts s" by (simp add: axios_def)
  show ?case
  proof (cases "settle (snd (srv (n_requests (trace s)) url opts))")
    case (Inl e)
    let ?s' = "sleep (DELAY_MS * 2 ^ retries)
                 (console_warn (retry_warning retries (DELAY_MS * 2 ^ retries)) e
                    (snd (axios srv url opts s)))"
    have 1: "fetchWithRetry srv url opts retries s = fetchWithRetry srv url opts (Suc retries) ?s'"
      using Inl lt by (rule fetch_retry)
    have "settle (snd (srv' (n_requests (trace s)) url opts)) = Inl e"
      using Inl same by simp
    then have 2: "fetchWithRetry srv' url opts retries s = fetchWithRetry srv' url opts (Suc retries) ?s'"
      using lt unfolding ax by (rule fetch_retry)
    have "n_requests (trace ?s') = Suc (n_requests (trace s))"
      by (simp add: sleep_frame console_warn_frame axios_frame n_requests_append)
    then have "\<forall>n\<ge>n_requests (trace ?s'). srv n = srv' n"
      using Suc.prems by simp
    from Suc.hyps(1) [OF k this] show ?thesis unfolding 1 2 .
  next
    case (Inr r)
    with same ax show ?thesis by (simp add: fetch_ok)
  qed
qed

lemma obtenerEmpleados_cong:
  "\<forall>n\<ge>n_requests (trace s). srv n = srv' n \<Longrightarrow> obtenerEmpleados srv s = obtenerEmpleados srv' s"
  using fetch_cong [of "loading s" srv srv' endpoint GET_options 0]
  by (simp add: obtenerEmpleados_def)

section \<open>Scripts of failures\<close>

lemma rejects_iff:
  "rejects srv url opts n errs \<longleftrightarrow>
     (\<forall>i<length errs. settle (snd (srv (n + i) url opts)) = Inl (errs ! i))"
  unfolding rejects_def list_eq_iff_nth_eq [of "map f xs" for f xs] by simp

lemma fetch_script:
  "retries + length errs \<le> MAX_RETRIES \<Longrightarrow>
   rejects srv url opts (n_requests (trace s)) errs \<Longrightarrow>
   settle (snd (srv (n_requests (trace s) + length errs) url opts)) = r \<Longrightarrow>
   isl r \<longrightarrow> retries + length errs = MAX_RETRIES \<Longrightarrow>
   fst (fetchWithRetry srv url opts retries s) = r \<and>
   trace (snd (fetchWithRetry srv url opts retries s)) =
     trace s @ backoff_trace url opts retries errs @ [Request url opts]"
proof (induction errs arbitrary: retries s)
  case Nil
  then show ?case by (cases r) (simp_all add: fetch_ok fetch_last axios_frame)
next
  case (Cons e es)
  let ?s' = "sleep (DELAY_MS * 2 ^ retries)
               (console_warn (retry_warning retries (DELAY_MS * 2 ^ retries)) e
                  (snd (axios srv url opts s)))"
  from Cons.prems(1) have lt: "retries < MAX_RETRIES" by simp
  from Cons.prems(2) have all:
    "\<forall>i<length (e # es). settle (snd (srv (n_requests (trace s) + i) url opts)) = Inl ((e # es) ! i)"
    by (simp only: rejects_iff)
  then have e: "settle (snd (srv (n_requests (trace s)) url opts)) = Inl e"
    by fastforce
  have step: "fetchWithRetry srv url opts retries s = fetchWithRetry srv url opts (Suc retries) ?s'"
    using e lt by (rule fetch_retry)
  have tr: "trace ?s' = trace s @ [Request url opts,
      ConsoleWarn (retry_warning retries (1000 * 2 ^ retries)) e, Delay (1000 * 2 ^ retries)]"
    by (simp add: sleep_frame console_warn_frame axios_frame DELAY_MS_def)
  then have n: "n_requests (trace ?s') = Suc (n_requests (trace s))"
    by (simp add: n_requests_append)
  have 1: "Suc retries + length es \<le> MAX_RETRIES" using Cons.prems(1) by simp
  have 2: "rejects srv url opts (n_requests (trace ?s')) es"
    unfolding rejects_iff
  proof (intro allI impI)
    fix i assume "i < length es"
    then have "settle (snd (srv (n_requests (trace s) + Suc i) url opts)) = Inl ((e # es) ! Suc i)"
      using all by (metis Suc_less_eq length_Cons)
    then show "settle (snd (srv (n_requests (trace ?s') + i) url opts)) = Inl (es ! i)"
      by (simp add: n)
  qed
  have 3: "settle (snd (srv (n_requests (trace ?s') + length es) url opts)) = r"
    using Cons.prems(3) by (simp add: n)
  have 4: "isl r \<longrightarrow> Suc retries + length es = MAX_RETRIES"
    using Cons.prems(4) by simp
  from Cons.IH [OF 1 2 3 4] show ?case
    unfolding step by (simp add: tr)
qed

lemma n_requests_backoff: "n_requests (backoff_trace url opts r errs) = length errs"
  by (induction errs arbitrary: r) simp_all

lemma delays_of_backoff:
  "delays_of (backoff_trace url opts r errs) = map (\<lambda>i. 1000 * 2 ^ i) [r ..< r + length errs]"
  by (induction errs arbitrary: r) (simp_all add: upt_rec)

lemma schedule_prefix:
  "length errs \<le> 3 \<Longrightarrow>
   map (\<lambda>i. 1000 * 2 ^ i) [0 ..< length errs] = take (length errs) [1000, 2000, 4000::nat]"
proof (cases errs)
  case Nil
  then show ?thesis by simp
next
  case (Cons a as)
  assume len: "length errs \<le> 3"
  show ?thesis
  proof (cases as)
    case Nil
    with Cons show ?thesis by simp
  next
    case (Cons b bs)
    with \<open>errs = a # as\<close> len show ?thesis by (cases bs) simp_all
  qed
qed

section \<open>Elapsed time, sorting, decimal digits, trimming\<close>

lemma insert_sorted_Emp:
  "insert_sorted (Emp e) (map Emp es) = map Emp (insort_key id_empleado e es)"
  by (induction es)
     (simp_all add: SortCompare_def comparefn_def leer_id_empleado_def)

lemma Array_sort_Emp: "Array_sort (map Emp es) = map Emp (sort_key id_empleado es)"
  by (induction es) (simp_all add: Array_sort_def insert_sorted_Emp)

lemma mset_insert_sorted: "mset (insert_sorted a bs) = add_mset a (mset bs)"
  by (induction bs) simp_all

lemma mset_Array_sort: "mset (Array_sort xs) = mset xs"
  by (induction xs) (simp_all add: Array_sort_def mset_insert_sorted)

lemma digit_unat: "n < 10 \<Longrightarrow> unat (0x30 + (of_nat n :: 16 word)) = 48 + n"
  by (simp add: unat_word_ariths unat_of_nat)

lemma digit_range:
  "n < 10 \<Longrightarrow> (0x30::16 word) \<le> 0x30 + of_nat n \<and> 0x30 + (of_nat n :: 16 word) \<le> 0x39"
  by (simp add: word_le_nat_alt digit_unat)

lemma digit_minus: "n < 10 \<Longrightarrow> unat (0x30 + (of_nat n :: 16 word) - 0x30) = n"
  by (simp add: unat_of_nat)

lemma number_toString_digits:
  "\<forall>c\<in>set (number_toString n). 0x30 \<le> c \<and> c \<le> 0x39"
proof (induction n rule: number_toString.induct)
  case (1 n)
  show ?case
  proof (cases "n < 10")
    case True
    then show ?thesis
      using digit_range [of n] by (simp add: number_toString.simps [of n])
  next
    case False
    then show ?thesis
      using 1 digit_range [of "n mod 10"] by (simp add: number_toString.simps [of n])
  qed
qed

lemma decimal_value_snoc:
  "decimal_value (ds @ [c]) = 10 * decimal_value ds + unat (c - 0x30)"
  by (simp add: decimal_value_def)

lemma decimal_value_number_toString: "decimal_value (number_toString n) = n"
proof (induction n rule: number_toString.induct)
  case (1 n)
  show ?case
  proof (cases "n < 10")
    case True
    then show ?thesis
      using digit_minus [of n]
      by (simp add: number_toString.simps [of n] decimal_value_def)
  next
    case False
    then show ?thesis
      using 1 digit_minus [of "n mod 10"]
      by (simp add: number_toString.simps [of n] decimal_value_snoc)
  qed
qed

lemma number_toString_nonempty: "number_toString n \<noteq> []"
  by (simp add: number_toString.simps [of n])

lemma number_toString_leading: "hd (number_toString n) = 0x30 \<longleftrightarrow> n = 0"
proof (induction n rule: number_toString.induct)
  case (1 n)
  show ?case
  proof (cases "n < 10")
    case True
    have "0x30 + (of_nat n :: 16 word) = 0x30 \<longleftrightarrow> n = 0"
    proof
      assume "0x30 + (of_nat n :: 16 word) = 0x30"
      then have "unat (0x30 + (of_nat n :: 16 word)) = 48" by simp
      then show "n = 0" using digit_unat [OF True] by simp
    qed simp
    then show ?thesis
      using True by (simp add: number_toString.simps [of n])
  next
    case False
    then have "n div 10 \<noteq> 0" by simp
    then show ?thesis
      using False 1 number_toString_nonempty [of "n div 10"]
      by (simp add: number_toString.simps [of n])
  qed
qed

lemma trim_decomposition:
  "\<exists>pre post. s = pre @ trim s @ post \<and>
     (\<forall>c\<in>set pre. isWhiteSpace c) \<and> (\<forall>c\<in>set post. isWhiteSpace c)"
proof -
  let ?a = "dropWhile isWhiteSpace s"
  let ?pre = "takeWhile isWhiteSpace s"
  let ?post = "rev (takeWhile isWhiteSpace (rev ?a))"
  have "rev (takeWhile isWhiteSpace (rev ?a) @ dropWhile isWhiteSpace (rev ?a)) = ?a"
    by (simp only: takeWhile_dropWhile_id rev_rev_ident)
  then have a: "?a = trim s @ ?post"
    by (simp only: rev_append trim_def)
  have "s = ?pre @ ?a" by simp
  with a have "s = ?pre @ trim s @ ?post" by simp
  moreover have "\<forall>c\<in>set ?pre. isWhiteSpace c" by (auto dest: set_takeWhileD)
  moreover have "\<forall>c\<in>set ?post. isWhiteSpace c" by (auto dest: set_takeWhileD)
  ultimately show ?thesis by blast
qed

lemma axios_clock:
  "clock (snd (axios srv url opts s)) = clock s + fst (srv (n_requests (trace s)) url opts)"
  by (simp add: axios_def advance_frame split: prod.splits)

lemma sleep_clock: "clock (sleep ms s) = clock s + ms"
  by (simp add: sleep_def advance_frame)

lemma fetch_script_clock:
  "retries + length errs \<le> MAX_RETRIES \<Longrightarrow>
   rejects srv url opts (n_requests (trace s)) errs \<Longrightarrow>
   settle (snd (srv (n_requests (trace s) + length errs) url opts)) = r \<Longrightarrow>
   isl r \<longrightarrow> retries + length errs = MAX_RETRIES \<Longrightarrow>
   clock (snd (fetchWithRetry srv url opts retries s)) =
     clock s + (\<Sum>i\<le>length errs. fst (srv (n_requests (trace s) + i) url opts)) +
     (\<Sum>i<length errs. 1000 * 2 ^ (retries + i))"
proof (induction errs arbitrary: retries s)
  case Nil
  then show ?case by (cases r) (simp_all add: fetch_ok fetch_last axios_clock)
next
  case (Cons e es)
  let ?n = "n_requests (trace s)"
  let ?s' = "sleep (DELAY_MS * 2 ^ retries)
               (console_warn (retry_warning retries (DELAY_MS * 2 ^ retries)) e
                  (snd (axios srv url opts s)))"
  from Cons.prems(1) have lt: "retries < MAX_RETRIES" by simp
  from Cons.prems(2) have all:
    "\<forall>i<length (e # es). settle (snd (srv (?n + i) url opts)) = Inl ((e # es) ! i)"
    by (simp only: rejects_iff)
  then have e: "settle (snd (srv ?n url opts)) = Inl e"
    by fastforce
  have step: "fetchWithRetry srv url opts retries s = fetchWithRetry srv url opts (Suc retries) ?s'"
    using e lt by (rule fetch_retry)
  have n: "n_requests (trace ?s') = Suc ?n"
    by (simp add: sleep_frame console_warn_frame axios_frame n_requests_append)
  have c: "clock ?s' = clock s + fst (srv ?n url opts) + 1000 * 2 ^ retries"
    by (simp add: sleep_clock console_warn_def axios_clock DELAY_MS_def)
  have 1: "Suc retries + length es \<le> MAX_RETRIES" using Cons.prems(1) by simp
  have 2: "rejects srv url opts (n_requests (trace ?s')) es"
    unfolding rejects_iff
  proof (intro allI impI)
    fix i assume "i < length es"
    then have "settle (snd (srv (?n + Suc i) url opts)) = Inl ((e # es) ! Suc i)"
      using all by (metis Suc_less_eq length_Cons)
    then show "settle (snd (srv (n_requests (trace ?s') + i) url opts)) = Inl (es ! i)"
      by (simp add: n)
  qed
  have 3: "settle (snd (srv (n_requests (trace ?s') + length es) url opts)) = r"
    using Cons.prems(3) by (simp add: n)
  have 4: "isl r \<longrightarrow> Suc retries + length es = MAX_RETRIES"
    using Cons.prems(4) by simp
  have lat: "(\<Sum>i\<le>length (e # es). fst (srv (?n + i) url opts)) =
             fst (srv ?n url opts) + (\<Sum>i\<le>length es. fst (srv (Suc ?n + i) url opts))"
    unfolding length_Cons sum.atMost_Suc_shift by simp
  have del: "(\<Sum>i<length (e # es). 1000 * 2 ^ (retries + i)) =
             1000 * 2 ^ retries + (\<Sum>i<length es. (1000::nat) * 2 ^ (Suc retries + i))"
    unfolding length_Cons sum.lessThan_Suc_shift by simp
  from Cons.IH [OF 1 2 3 4] show ?case
    unfolding step lat del by (simp add: n c)
qed

lemma schedule_sum:
  "length errs \<le> 3 \<Longrightarrow>
   (\<Sum>i<length errs. 1000 * 2 ^ i) = sum_list (take (length errs) [1000, 2000, 4000::nat])"
proof (cases errs)
  case Nil
  then show ?thesis by simp
next
  case (Cons a as)
  assume len: "length errs \<le> 3"
  show ?thesis
  proof (cases as)
    case Nil
    with Cons show ?thesis by simp
  next
    case (Cons b bs)
    with \<open>errs = a # as\<close> len show ?thesis by (cases bs) (simp_all add: lessThan_Suc)
  qed
qed

lemma anglophone_accepts:
  "settle (snd (anglophone n url opts)) =
     Inr \<lparr>status = 200, response_data = Lista [B3_employee, A1_employee]\<rparr>"
  by (simp add: anglophone_def scripted_def settle_def)

lemma fila_Emp: "fila (Emp e) = (Some (nombre e), Some (id_empleado e))"
  by (simp add: fila_def leer_nombre_def leer_id_empleado_def)

lemma fila_Sin: "fila (Sin fs) = (None, None)"
  by (simp add: fila_def leer_nombre_def leer_id_empleado_def)

section \<open>The retrying client\<close>

text \<open>
  Claim C1. When at most three attempts of \<^verbatim>\<open>fetchWithRetry\<close> fail and the next one
  succeeds, the call returns the response of that attempt as it is. The run consists of
  the failed attempts, each followed by its warning and its delay, and of the successful
  attempt; the delays are the first ones of 1000, 2000, 4000 milliseconds, one for each
  failure, in this order. The delays are waited for: when the call returns, the clock has
  advanced by the time the server took to answer each attempt and by the sum of these
  delays, and by nothing else.
\<close>

theorem fetchWithRetry_recovers:
  assumes "length errs \<le> 3"
    and "rejects srv url opts (n_requests (trace s)) errs"
    and "accepts srv url opts (n_requests (trace s) + length errs) resp"
  shows "fst (fetchWithRetry srv url opts 0 s) = Inr resp \<and>
         trace (snd (fetchWithRetry srv url opts 0 s)) =
           trace s @ backoff_trace url opts 0 errs @ [Request url opts] \<and>
         delays_of (trace (snd (fetchWithRetry srv url opts 0 s))) =
           delays_of (trace s) @ take (length errs) [1000, 2000, 4000] \<and>
         clock (snd (fetchWithRetry srv url opts 0 s)) =
           clock s + (\<Sum>i\<le>length errs. fst (srv (n_requests (trace s) + i) url opts)) +
           sum_list (take (length errs) [1000, 2000, 4000])"
proof -
  have ok: "settle (snd (srv (n_requests (trace s) + length errs) url opts)) = Inr resp"
    using assms(3) by (simp add: accepts_def)
  have "fst (fetchWithRetry srv url opts 0 s) = Inr resp \<and>
        trace (snd (fetchWithRetry srv url opts 0 s)) =
          trace s @ backoff_trace url opts 0 errs @ [Request url opts]"
    using assms(1) by (intro fetch_script [OF _ assms(2) ok]) (simp_all add: MAX_RETRIES_def)
  moreover have "clock (snd (fetchWithRetry srv url opts 0 s)) =
      clock s + (\<Sum>i\<le>length errs. fst (srv (n_requests (trace s) + i) url opts)) +
      (\<Sum>i<length errs. 1000 * 2 ^ (0 + i))"
    using assms(1) by (intro fetch_script_clock [OF _ assms(2) ok]) (simp_all add: MAX_RETRIES_def)
  ultimately show ?thesis
    using assms(1)
    by (simp add: delays_of_append delays_of_backoff schedule_prefix schedule_sum)
qed

theorem fetchWithRetry_recovers_witness:
  "fst (fetchWithRetry flaky endpoint GET_options 0 initial) =
     Inr \<lparr>status = 200, response_data = Lista [B3, A1]\<rparr> \<and>
   delays_of (trace (snd (fetchWithRetry flaky endpoint GET_options 0 initial))) = [1000, 2000] \<and>
   n_requests (trace (snd (fetchWithRetry flaky endpoint GET_options 0 initial))) = 3 \<and>
   clock (snd (fetchWithRetry flaky endpoint GET_options 0 initial)) = 50 + 1000 + 50 + 2000 + 30"
  using fetchWithRetry_recovers
    [of "[NetworkError (js ''Network Error''), BadStatus 503 (Otro [])]"
        flaky endpoint GET_options initial "\<lparr>status = 200, response_data = Lista [B3, A1]\<rparr>"]
  by (simp add: rejects_def accepts_def flaky_def scripted_def settle_def initial_def
        n_requests_append n_requests_backoff atMost_Suc)

text \<open>
  Claim C2. When four attempts in a row fail, \<^verbatim>\<open>fetchWithRetry\<close> raises the error of
  the fourth one. It has sent four requests and waited 1000, 2000 and 4000 milliseconds
  between them, and the fourth request is the last event of the run: whatever the server
  would answer to a fifth request, none is sent.
\<close>

theorem fetchWithRetry_gives_up:
  assumes "length errs = 4"
    and "rejects srv url opts (n_requests (trace s)) errs"
  shows "fst (fetchWithRetry srv url opts 0 s) = Inl (errs ! 3) \<and>
         trace (snd (fetchWithRetry srv url opts 0 s)) =
           trace s @ backoff_trace url opts 0 (take 3 errs) @ [Request url opts] \<and>
         n_requests (trace (snd (fetchWithRetry srv url opts 0 s))) = n_requests (trace s) + 4 \<and>
         delays_of (trace (snd (fetchWithRetry srv url opts 0 s))) =
           delays_of (trace s) @ [1000, 2000, 4000]"
proof -
  have all: "\<forall>i<length errs. settle (snd (srv (n_requests (trace s) + i) url opts)) = Inl (errs ! i)"
    using assms(2) by (simp only: rejects_iff)
  have r: "rejects srv url opts (n_requests (trace s)) (take 3 errs)"
    unfolding rejects_iff using all assms(1) by simp
  have l: "settle (snd (srv (n_requests (trace s) + length (take 3 errs)) url opts)) = Inl (errs ! 3)"
    using all assms(1) by simp
  have "fst (fetchWithRetry srv url opts 0 s) = Inl (errs ! 3) \<and>
        trace (snd (fetchWithRetry srv url opts 0 s)) =
          trace s @ backoff_trace url opts 0 (take 3 errs) @ [Request url opts]"
    using assms(1) by (intro fetch_script r l) (simp_all add: MAX_RETRIES_def)
  then show ?thesis
    using assms(1)
    by (simp add: delays_of_append delays_of_backoff n_requests_append n_requests_backoff
          upt_rec)
qed

theorem fetchWithRetry_gives_up_witness:
  "fst (fetchWithRetry down endpoint GET_options 0 initial) =
     Inl (NetworkError (js ''Network Error'')) \<and>
   n_requests (trace (snd (fetchWithRetry down endpoint GET_options 0 initial))) = 4 \<and>
   delays_of (trace (snd (fetchWithRetry down endpoint GET_options 0 initial))) =
     [1000, 2000, 4000]"
  using fetchWithRetry_gives_up
    [of "[NetworkError (js ''Network Error''), NetworkError (js ''Network Error''),
          NetworkError (js ''Network Error''), NetworkError (js ''Network Error'')]"
        down endpoint GET_options initial]
  by (simp add: rejects_def down_def scripted_def settle_def initial_def map_replicate_const
        n_requests_append n_requests_backoff delays_of_append delays_of_backoff upt_rec)

section \<open>Whole operations\<close>

lemma fetch_exhausted:
  assumes "length errs = 4" and "rejects srv url opts (n_requests (trace s)) errs"
  shows "fst (fetchWithRetry srv url opts 0 s) = Inl (errs ! 3)"
    and "n_requests (trace (snd (fetchWithRetry srv url opts 0 s))) = n_requests (trace s) + 4"
proof -
  have all: "\<forall>i<length errs. settle (snd (srv (n_requests (trace s) + i) url opts)) = Inl (errs ! i)"
    using assms(2) by (simp only: rejects_iff)
  have r: "rejects srv url opts (n_requests (trace s)) (take 3 errs)"
    unfolding rejects_iff using all assms(1) by simp
  have l: "settle (snd (srv (n_requests (trace s) + length (take 3 errs)) url opts)) = Inl (errs ! 3)"
    using all assms(1) by simp
  have both: "fst (fetchWithRetry srv url opts 0 s) = Inl (errs ! 3) \<and>
        trace (snd (fetchWithRetry srv url opts 0 s)) =
          trace s @ backoff_trace url opts 0 (take 3 errs) @ [Request url opts]"
    using assms(1) by (intro fetch_script r l) (simp_all add: MAX_RETRIES_def)
  then show "fst (fetchWithRetry srv url opts 0 s) = Inl (errs ! 3)" by simp
  from both show "n_requests (trace (snd (fetchWithRetry srv url opts 0 s))) = n_requests (trace s) + 4"
    using assms(1) by (simp add: n_requests_append n_requests_backoff)
qed

lemma obtenerEmpleados_exhausted:
  assumes "length errs = 4" and "rejects srv endpoint GET_options (n_requests (trace s)) errs"
  shows "obtenerEmpleados srv s =
         (obtenerEmpleados_catch (errs ! 3)
            (snd (fetchWithRetry srv endpoint GET_options 0 (loading s))))\<lparr>isLoading := False\<rparr>"
proof (rule obtenerEmpleados_rejected)
  show "fst (fetchWithRetry srv endpoint GET_options 0 (loading s)) = Inl (errs ! 3)"
    using assms by (intro fetch_exhausted) simp_all
qed

lemma agregarEmpleado_exhausted:
  assumes "trim (nombreInput s) \<noteq> []" and "length errs = 4"
    and "rejects srv endpoint (POST_options (trim (nombreInput s))) (n_requests (trace s)) errs"
  shows "agregarEmpleado srv s =
         (mostrarMensaje (js ''Error al agregar empleado.'') True
            (snd (fetchWithRetry srv endpoint (POST_options (trim (nombreInput s))) 0
                        (s\<lparr>isLoading := True\<rparr>))))\<lparr>isLoading := False\<rparr>"
proof (rule agregarEmpleado_rejected [OF assms(1)])
  show "fst (fetchWithRetry srv endpoint (POST_options (trim (nombreInput s))) 0
           (s\<lparr>isLoading := True\<rparr>)) = Inl (errs ! 3)"
    using assms(2,3) by (intro fetch_exhausted) simp_all
qed

lemma obtenerEmpleados_frame:
  "nombreInput (obtenerEmpleados srv s) = nombreInput s"
  "\<not> isLoading (obtenerEmpleados srv s)"
proof -
  obtain r t where f: "fetchWithRetry srv endpoint GET_options 0 (loading s) = (r, t)"
    by (cases "fetchWithRetry srv endpoint GET_options 0 (loading s)")
  have t: "nombreInput t = nombreInput s"
    using fetch_frame(4) [of srv endpoint GET_options 0 "loading s"] by (simp add: f)
  show "nombreInput (obtenerEmpleados srv s) = nombreInput s"
    using t by (simp add: obtenerEmpleados_def f mostrarMensaje_frame catch_frame
        split: sum.splits payload.splits)
  show "\<not> isLoading (obtenerEmpleados srv s)"
    by (simp add: obtenerEmpleados_def Let_def)
qed

lemma number_toString_digit: "n < 10 \<Longrightarrow> number_toString n = [0x30 + of_nat n]"
  by (simp add: number_toString.simps [of n])

lemma fetch_first_request:
  "\<exists>rest. trace (snd (fetchWithRetry srv url opts retries s)) = trace s @ Request url opts # rest"
proof (cases "settle (snd (srv (n_requests (trace s)) url opts))")
  case (Inr r)
  then show ?thesis by (simp add: fetch_ok axios_frame)
next
  case (Inl e)
  show ?thesis
  proof (cases "retries < MAX_RETRIES")
    case False
    with Inl show ?thesis by (simp add: fetch_last axios_frame)
  next
    case True
    let ?s' = "sleep (DELAY_MS * 2 ^ retries)
                 (console_warn (retry_warning retries (DELAY_MS * 2 ^ retries)) e
                    (snd (axios srv url opts s)))"
    have step: "fetchWithRetry srv url opts retries s = fetchWithRetry srv url opts (Suc retries) ?s'"
      using Inl True by (rule fetch_retry)
    have "\<exists>rest. trace (snd (fetchWithRetry srv url opts (Suc retries) ?s')) =
            trace s @ Request url opts # rest"
      by (rule fetch_preserves
            [where P = "\<lambda>t. \<exists>rest. trace t = trace s @ Request url opts # rest"])
         (auto simp: axios_frame sleep_frame console_warn_frame)
    then show ?thesis by (simp only: step)
  qed
qed

lemma obtenerEmpleados_extends:
  "\<exists>evs. trace (obtenerEmpleados srv s) = trace s @ evs"
proof -
  obtain r t where f: "fetchWithRetry srv endpoint GET_options 0 (loading s) = (r, t)"
    by (cases "fetchWithRetry srv endpoint GET_options 0 (loading s)")
  obtain rest where "trace t = trace s @ Request endpoint GET_options # rest"
    using fetch_first_request [of srv endpoint GET_options 0 "loading s"] by (auto simp: f)
  then show ?thesis
    by (simp add: obtenerEmpleados_def f mostrarMensaje_frame catch_frame
          split: sum.splits payload.splits)
qed

lemma last_dropWhile: "dropWhile P xs \<noteq> [] \<Longrightarrow> last (dropWhile P xs) = last xs"
  by (induction xs) (auto split: if_splits)

lemma trim_ends:
  assumes "trim s \<noteq> []"
  shows "\<not> isWhiteSpace (hd (trim s))" and "\<not> isWhiteSpace (last (trim s))"
proof -
  let ?a = "dropWhile isWhiteSpace s"
  let ?b = "dropWhile isWhiteSpace (rev ?a)"
  from assms have b: "?b \<noteq> []" by (simp add: trim_def)
  have a: "?a \<noteq> []"
  proof
    assume "?a = []"
    then have "?b = []" by (simp only: rev.simps dropWhile.simps)
    with b show False by contradiction
  qed
  have "hd (trim s) = last ?b" using b by (simp add: trim_def hd_rev)
  also have "\<dots> = last (rev ?a)" using b by (rule last_dropWhile)
  also have "\<dots> = hd ?a" using a by (simp add: last_rev)
  finally show "\<not> isWhiteSpace (hd (trim s))" using hd_dropWhile [OF a] by simp
  have "last (trim s) = hd ?b" using b by (simp add: trim_def last_rev)
  then show "\<not> isWhiteSpace (last (trim s))" using hd_dropWhile [OF b] by simp
qed

lemma agregarEmpleado_first_request:
  assumes "trim (nombreInput s) \<noteq> []"
  shows "\<exists>rest. trace (agregarEmpleado srv s) =
           trace s @ Request endpoint (POST_options (trim (nombreInput s))) # rest"
proof -
  let ?n = "trim (nombreInput s)"
  obtain r t where f: "fetchWithRetry srv endpoint (POST_options ?n) 0 (s\<lparr>isLoading := True\<rparr>) = (r, t)"
    by (cases "fetchWithRetry srv endpoint (POST_options ?n) 0 (s\<lparr>isLoading := True\<rparr>)")
  obtain rest where t: "trace t = trace s @ Request endpoint (POST_options ?n) # rest"
    using fetch_first_request [of srv endpoint "POST_options ?n" 0 "s\<lparr>isLoading := True\<rparr>"]
    by (auto simp: f)
  show ?thesis
  proof (cases r)
    case (Inl e)
    then show ?thesis
      using assms t by (simp add: agregarEmpleado_def f mostrarMensaje_frame)
  next
    case (Inr resp)
    obtain evs where "trace (obtenerEmpleados srv
        (mostrarMensaje (empleado_agregado ?n) False (t\<lparr>nombreInput := []\<rparr>))) =
        trace (mostrarMensaje (empleado_agregado ?n) False (t\<lparr>nombreInput := []\<rparr>)) @ evs"
      using obtenerEmpleados_extends by blast
    then show ?thesis
      using assms t Inr by (simp add: agregarEmpleado_def f mostrarMensaje_frame)
  qed
qed

lemma agregarEmpleado_accepted:
  assumes ne: "trim (nombreInput s) \<noteq> []"
    and ok: "settle (snd (srv (n_requests (trace s)) endpoint (POST_options (trim (nombreInput s))))) = Inr resp"
  shows "agregarEmpleado srv s =
         (obtenerEmpleados srv
            (mostrarMensaje (empleado_agregado (trim (nombreInput s))) False
               ((snd (axios srv endpoint (POST_options (trim (nombreInput s)))
                        (s\<lparr>isLoading := True\<rparr>)))\<lparr>nombreInput := []\<rparr>)))\<lparr>isLoading := False\<rparr>"
proof -
  have f: "fetchWithRetry srv endpoint (POST_options (trim (nombreInput s))) 0 (s\<lparr>isLoading := True\<rparr>) =
           (Inr resp, snd (axios srv endpoint (POST_options (trim (nombreInput s))) (s\<lparr>isLoading := True\<rparr>)))"
    using ok by (intro fetch_ok) simp
  show ?thesis
    using agregarEmpleado_ok [OF ne, of srv resp] by (simp add: f)
qed

lemma healthy_accepts:
  "settle (snd (healthy n url opts)) = Inr \<lparr>status = 200, response_data = Lista [B3, A1]\<rparr>"
  by (simp add: healthy_def scripted_def settle_def)

lemma obtenerEmpleados_accepted_trace:
  assumes "settle (snd (srv (n_requests (trace s)) endpoint GET_options)) = Inr resp"
  shows "trace (obtenerEmpleados srv s) =
         trace s @ Request endpoint GET_options #
           (case response_data resp of Lista d \<Rightarrow> [] | Otro v \<Rightarrow> [ConsoleError TypeError])"
proof -
  have f: "fetchWithRetry srv endpoint GET_options 0 (loading s) =
           (Inr resp, snd (axios srv endpoint GET_options (loading s)))"
    using assms by (intro fetch_ok) simp
  show ?thesis
    by (simp add: obtenerEmpleados_def f mostrarMensaje_frame catch_frame axios_frame
          split: payload.splits)
qed

lemma down_rejects:
  "rejects down url opts n
     [NetworkError (js ''Network Error''), NetworkError (js ''Network Error''),
      NetworkError (js ''Network Error''), NetworkError (js ''Network Error'')]"
  by (simp add: rejects_def down_def scripted_def settle_def upt_rec)

lemma trim_Carla: "trim (js ''Carla'') = js ''Carla''"
  by (simp add: trim_def js_def isWhiteSpace_def)

lemma refresh_failed_iff: "refresh_failed srv s \<longleftrightarrow> esError (obtenerEmpleados srv s)"
proof -
  obtain r t where f: "fetchWithRetry srv endpoint GET_options 0 (loading s) = (r, t)"
    by (cases "fetchWithRetry srv endpoint GET_options 0 (loading s)")
  show ?thesis
    by (simp add: refresh_failed_def obtenerEmpleados_def f mostrarMensaje_frame catch_frame
          split: sum.splits payload.splits)
qed

lemma one_timer_obtenerEmpleados: "one_timer s \<Longrightarrow> one_timer (obtenerEmpleados srv s)"
proof -
  assume inv: "one_timer s"
  obtain r t where f: "fetchWithRetry srv endpoint GET_options 0 (loading s) = (r, t)"
    by (cases "fetchWithRetry srv endpoint GET_options 0 (loading s)")
  have "one_timer (loading s)" using inv by (simp add: one_timer_iff)
  then have t: "one_timer t"
    using one_timer_fetch [of "loading s" srv endpoint GET_options 0] by (simp add: f)
  have upd: "\<And>u f. one_timer u \<Longrightarrow> one_timer (u\<lparr>isLoading := f\<rparr>)"
    "\<And>u f. one_timer u \<Longrightarrow> one_timer (u\<lparr>esError := f\<rparr>)"
    "\<And>u f. one_timer u \<Longrightarrow> one_timer (u\<lparr>empleados := f\<rparr>)"
    "\<And>u e. one_timer u \<Longrightarrow> one_timer (console_error e u)"
    by (simp_all add: one_timer_iff console_error_def)
  show ?thesis
    using t
    by (auto simp: obtenerEmpleados_def f obtenerEmpleados_catch_def
          intro!: upd one_timer_mostrarMensaje split: sum.splits payload.splits)
qed

lemma one_timer_agregarEmpleado: "one_timer s \<Longrightarrow> one_timer (agregarEmpleado srv s)"
proof -
  assume inv: "one_timer s"
  let ?n = "trim (nombreInput s)"
  obtain r t where f: "fetchWithRetry srv endpoint (POST_options ?n) 0 (s\<lparr>isLoading := True\<rparr>) = (r, t)"
    by (cases "fetchWithRetry srv endpoint (POST_options ?n) 0 (s\<lparr>isLoading := True\<rparr>)")
  have "one_timer (s\<lparr>isLoading := True\<rparr>)" using inv by (simp add: one_timer_iff)
  then have t: "one_timer t"
    using one_timer_fetch [of "s\<lparr>isLoading := True\<rparr>" srv endpoint "POST_options ?n" 0]
    by (simp add: f)
  have upd: "\<And>u f. one_timer u \<Longrightarrow> one_timer (u\<lparr>isLoading := f\<rparr>)"
    "\<And>u f. one_timer u \<Longrightarrow> one_timer (u\<lparr>nombreInput := f\<rparr>)"
    by (simp_all add: one_timer_iff)
  show ?thesis
    using t inv
    by (auto simp: agregarEmpleado_def f Let_def
          intro!: upd one_timer_mostrarMensaje one_timer_obtenerEmpleados split: sum.splits)
qed

lemma one_timer_length: "one_timer s \<Longrightarrow> length (timers s) \<le> 1"
  by (auto simp: one_timer_iff)

section \<open>The status message\<close>

text \<open>
  Claim C3. Let \<^verbatim>\<open>mostrarMensaje\<close> be called with a success message in a state where
  the timer invariant holds, and let no further call follow. As long as fewer than 4000
  milliseconds have passed, the message is in place and its timer is pending; once 4000
  milliseconds have passed, the message is empty and no timer is pending. A second call
  before the deadline takes the first timer out of the queue: at most one timer is pending
  after it, and the second message is still in place when the first deadline passes.
\<close>

theorem mostrarMensaje_auto_clear:
  assumes inv: "one_timer s"
  shows "(\<forall>ms<4000. mensajeEstado (advance ms (mostrarMensaje m False s)) = m \<and>
                   timers (advance ms (mostrarMensaje m False s)) = [(next_timer s, clock s + 4000)]) \<and>
         (\<forall>ms\<ge>4000. mensajeEstado (advance ms (mostrarMensaje m False s)) = [] \<and>
                   timers (advance ms (mostrarMensaje m False s)) = []) \<and>
         (\<forall>ms<4000. \<forall>m' err.
             (next_timer s, clock s + 4000) \<notin>
               set (timers (mostrarMensaje m' err (advance ms (mostrarMensaje m False s)))) \<and>
             length (timers (mostrarMensaje m' err (advance ms (mostrarMensaje m False s)))) \<le> 1 \<and>
             (\<forall>ms'<4000. mensajeEstado
                 (advance ms' (mostrarMensaje m' err (advance ms (mostrarMensaje m False s)))) = m'))"
proof (intro conjI allI impI)
  fix ms :: nat assume "ms < 4000"
  then show "mensajeEstado (advance ms (mostrarMensaje m False s)) = m"
    and "timers (advance ms (mostrarMensaje m False s)) = [(next_timer s, clock s + 4000)]"
    using inv by (simp_all add: success_then_wait_early mostrarMensaje_frame)
      (simp add: mostrarMensaje_success)
next
  fix ms :: nat assume "4000 \<le> ms"
  then show "mensajeEstado (advance ms (mostrarMensaje m False s)) = []"
    and "timers (advance ms (mostrarMensaje m False s)) = []"
    using inv by (simp_all add: success_then_wait_due)
next
  fix ms :: nat and m' err
  assume ms: "ms < 4000"
  let ?s1 = "advance ms (mostrarMensaje m False s)"
  have inv1: "one_timer ?s1"
    using inv by (intro one_timer_advance one_timer_mostrarMensaje)
  have nt: "next_timer ?s1 = Suc (next_timer s)"
    using inv by (simp add: advance_frame mostrarMensaje_success)
  show "(next_timer s, clock s + 4000) \<notin> set (timers (mostrarMensaje m' err ?s1))"
    using inv1 nt by (cases err) (simp_all add: mostrarMensaje_success mostrarMensaje_error)
  show "length (timers (mostrarMensaje m' err ?s1)) \<le> 1"
    using inv1 by (cases err) (simp_all add: mostrarMensaje_success mostrarMensaje_error)
  fix ms' :: nat assume ms': "ms' < 4000"
  show "mensajeEstado (advance ms' (mostrarMensaje m' err ?s1)) = m'"
  proof (cases err)
    case True
    then show ?thesis
      using inv1 by (simp add: mostrarMensaje_error advance_no_timers)
  next
    case False
    then show ?thesis
      using inv1 ms' by (simp add: success_then_wait_early mostrarMensaje_frame)
  qed
qed

theorem mostrarMensaje_auto_clear_witness:
  "mensajeEstado (advance 3999 (mostrarMensaje (js ''ok'') False initial)) = js ''ok'' \<and>
   mensajeEstado (advance 4000 (mostrarMensaje (js ''ok'') False initial)) = [] \<and>
   timers (advance 4000 (mostrarMensaje (js ''ok'') False initial)) = [] \<and>
   (1, 4000) \<notin> set (timers (mostrarMensaje (js ''two'') False
                               (advance 2500 (mostrarMensaje (js ''ok'') False initial)))) \<and>
   mensajeEstado (advance 1500 (mostrarMensaje (js ''two'') False
                    (advance 2500 (mostrarMensaje (js ''ok'') False initial)))) = js ''two''"
  using mostrarMensaje_auto_clear [OF one_timer_initial, of "js ''ok''"]
  by (simp add: initial_def)

text \<open>
  Claim C4. A call of \<^verbatim>\<open>mostrarMensaje\<close> with an error leaves no timer pending, and
  however much time passes afterwards, in however many steps, the message and the error
  flag stay as the call set them.
\<close>

theorem mostrarMensaje_error_stays:
  assumes inv: "one_timer s"
  shows "timers (mostrarMensaje m True s) = [] \<and>
         (\<forall>mss. mensajeEstado (fold advance mss (mostrarMensaje m True s)) = m \<and>
                esError (fold advance mss (mostrarMensaje m True s)) \<and>
                timers (fold advance mss (mostrarMensaje m True s)) = [])"
  using inv by (simp add: mostrarMensaje_error fold_advance_no_timers)

theorem mostrarMensaje_error_stays_witness:
  "timers (mostrarMensaje (js ''bad'') True (mostrarMensaje (js ''ok'') False initial)) = [] \<and>
   mensajeEstado (fold advance [3000, 1000, 60000]
     (mostrarMensaje (js ''bad'') True (mostrarMensaje (js ''ok'') False initial))) = js ''bad''"
  using mostrarMensaje_error_stays
    [OF one_timer_mostrarMensaje [OF one_timer_initial], of "js ''bad''" "js ''ok''" False]
  by blast

section \<open>Adding an employee\<close>

text \<open>
  Claim C5. When the input field is empty or holds white space only,
  \<^verbatim>\<open>agregarEmpleado\<close> sends no request (the trace is unchanged) and shows the error
  message about the empty name. For any other input the first thing it does on the network
  is the write request, and the name in its body is the input without the white space at
  its two ends: the input is that name between two runs of white space, and the name
  neither starts nor ends with white space.
\<close>

theorem agregarEmpleado_validation:
  "((\<forall>c\<in>set (nombreInput s). isWhiteSpace c) \<longrightarrow>
      trace (agregarEmpleado srv s) = trace s \<and>
      mensajeEstado (agregarEmpleado srv s) = js ''El nombre no puede estar vac'' @ [0xED] @ js ''o.'' \<and>
      esError (agregarEmpleado srv s)) \<and>
   (\<not> (\<forall>c\<in>set (nombreInput s). isWhiteSpace c) \<longrightarrow>
      (\<exists>rest. trace (agregarEmpleado srv s) =
         trace s @ Request endpoint (POST_options (trim (nombreInput s))) # rest) \<and>
      (\<exists>pre post. nombreInput s = pre @ trim (nombreInput s) @ post \<and>
         (\<forall>c\<in>set pre. isWhiteSpace c) \<and> (\<forall>c\<in>set post. isWhiteSpace c)) \<and>
      \<not> isWhiteSpace (hd (trim (nombreInput s))) \<and>
      \<not> isWhiteSpace (last (trim (nombreInput s))))"
proof (intro conjI impI)
  assume "\<forall>c\<in>set (nombreInput s). isWhiteSpace c"
  then have blank: "trim (nombreInput s) = []" by (simp only: trim_empty_iff)
  show "trace (agregarEmpleado srv s) = trace s"
    and "mensajeEstado (agregarEmpleado srv s) = js ''El nombre no puede estar vac'' @ [0xED] @ js ''o.''"
    and "esError (agregarEmpleado srv s)"
    by (simp_all add: agregarEmpleado_blank [OF blank] mostrarMensaje_frame nombre_vacio_def)
next
  assume "\<not> (\<forall>c\<in>set (nombreInput s). isWhiteSpace c)"
  then have ne: "trim (nombreInput s) \<noteq> []" by (simp only: trim_empty_iff not_False_eq_True)
  show "\<exists>rest. trace (agregarEmpleado srv s) =
         trace s @ Request endpoint (POST_options (trim (nombreInput s))) # rest"
    using ne by (rule agregarEmpleado_first_request)
  show "\<exists>pre post. nombreInput s = pre @ trim (nombreInput s) @ post \<and>
         (\<forall>c\<in>set pre. isWhiteSpace c) \<and> (\<forall>c\<in>set post. isWhiteSpace c)"
    by (rule trim_decomposition)
  show "\<not> isWhiteSpace (hd (trim (nombreInput s)))"
    and "\<not> isWhiteSpace (last (trim (nombreInput s)))"
    using ne by (rule trim_ends)+
qed

theorem agregarEmpleado_validation_witness:
  "trace (agregarEmpleado healthy (typed (js ''   ''))) = [] \<and>
   trace (agregarEmpleado healthy (typed [])) = [] \<and>
   esError (agregarEmpleado healthy (typed (js ''   ''))) \<and>
   esError (agregarEmpleado healthy (typed [])) \<and>
   (\<exists>rest. trace (agregarEmpleado healthy (typed (js '' Carla ''))) =
      Request endpoint (POST_options (js ''Carla'')) # rest) \<and>
   (\<exists>rest. trace (agregarEmpleado healthy (typed (js ''  Sofia Martinez''))) =
      Request endpoint (POST_options (js ''Sofia Martinez'')) # rest) \<and>
   trace (agregarEmpleado healthy (typed all_white_space)) = [] \<and>
   (\<exists>rest. trace (agregarEmpleado healthy (typed [0x20, 0x200B, 0x9])) =
      Request endpoint (POST_options [0x200B]) # rest) \<and>
   (\<exists>rest. trace (agregarEmpleado healthy (typed [0x1FFF, 0x20, 0x180E])) =
      Request endpoint (POST_options [0x1FFF, 0x20, 0x180E]) # rest) \<and>
   (\<exists>rest. trace (agregarEmpleado healthy (typed [0x85])) =
      Request endpoint (POST_options [0x85]) # rest)"
  using agregarEmpleado_validation [of "typed (js ''   '')" healthy]
    agregarEmpleado_validation [of "typed all_white_space" healthy]
    agregarEmpleado_validation [of "typed [0x20, 0x200B, 0x9]" healthy]
    agregarEmpleado_validation [of "typed [0x1FFF, 0x20, 0x180E]" healthy]
    agregarEmpleado_validation [of "typed [0x85]" healthy]
    agregarEmpleado_validation [of "typed []" healthy]
    agregarEmpleado_validation [of "typed (js '' Carla '')" healthy]
    agregarEmpleado_validation [of "typed (js ''  Sofia Martinez'')" healthy]
  by (simp add: typed_def initial_def js_def isWhiteSpace_def trim_def all_white_space_def)

text \<open>
  Claim C7. When the four attempts of the write request fail, the input field keeps its
  value, the error message of the write is shown with the error flag, and the loading flag
  is off.
\<close>

theorem agregarEmpleado_exhaustion:
  assumes "trim (nombreInput s) \<noteq> []" and "length errs = 4"
    and "rejects srv endpoint (POST_options (trim (nombreInput s))) (n_requests (trace s)) errs"
  shows "nombreInput (agregarEmpleado srv s) = nombreInput s \<and>
         mensajeEstado (agregarEmpleado srv s) = js ''Error al agregar empleado.'' \<and>
         esError (agregarEmpleado srv s) \<and>
         \<not> isLoading (agregarEmpleado srv s)"
  unfolding agregarEmpleado_exhausted [OF assms]
  by (simp add: mostrarMensaje_frame fetch_frame)

theorem agregarEmpleado_exhaustion_witness:
  "nombreInput (agregarEmpleado down (typed (js '' Carla ''))) = js '' Carla '' \<and>
   mensajeEstado (agregarEmpleado down (typed (js '' Carla ''))) = js ''Error al agregar empleado.'' \<and>
   esError (agregarEmpleado down (typed (js '' Carla ''))) \<and>
   \<not> isLoading (agregarEmpleado down (typed (js '' Carla '')))"
proof -
  have t: "trim (nombreInput (typed (js '' Carla ''))) = js ''Carla''"
    by (simp add: typed_def initial_def trim_def js_def isWhiteSpace_def)
  have ne: "trim (nombreInput (typed (js '' Carla ''))) \<noteq> []"
    unfolding t by (simp add: js_def)
  have r: "rejects down endpoint (POST_options (trim (nombreInput (typed (js '' Carla '')))))
             (n_requests (trace (typed (js '' Carla ''))))
             [NetworkError (js ''Network Error''), NetworkError (js ''Network Error''),
              NetworkError (js ''Network Error''), NetworkError (js ''Network Error'')]"
    by (simp add: rejects_def down_def scripted_def settle_def upt_rec)
  show ?thesis
    using agregarEmpleado_exhaustion [OF ne _ r] by (simp add: typed_def)
qed

text \<open>
  Claim C9 as stated does not hold. The write request goes to the path \<^verbatim>\<open>/empleado\<close> and carries the name under the
  field \<^verbatim>\<open>nombre\<close>: with a server that accepts everything, the run for the input
  \<^verbatim>\<open>Carla\<close> consists of that request and of the read request that follows, and a
  request to \<^verbatim>\<open>/employee\<close> with a field \<^verbatim>\<open>name\<close> is not in it.
\<close>

theorem write_request_is_not_employee_name:
  "trace (agregarEmpleado healthy (typed (js ''Carla''))) =
     [Request (API_URL @ js ''/empleado'')
        \<lparr>method = js ''POST'', data = Some [(js ''nombre'', js ''Carla'')]\<rparr>,
      Request (API_URL @ js ''/empleado'') \<lparr>method = js ''GET'', data = None\<rparr>] \<and>
   Request (API_URL @ js ''/employee'')
     \<lparr>method = js ''POST'', data = Some [(js ''name'', js ''Carla'')]\<rparr>
     \<notin> set (trace (agregarEmpleado healthy (typed (js ''Carla''))))"
proof -
  have ne: "trim (nombreInput (typed (js ''Carla''))) \<noteq> []"
    by (simp add: typed_def trim_Carla) (simp add: js_def)
  have n: "trim (nombreInput (typed (js ''Carla''))) = js ''Carla''"
    by (simp add: typed_def trim_Carla)
  have tr: "trace (agregarEmpleado healthy (typed (js ''Carla''))) =
     [Request endpoint (POST_options (js ''Carla'')), Request endpoint GET_options]"
    unfolding agregarEmpleado_accepted [OF ne healthy_accepts]
    by (simp add: obtenerEmpleados_accepted_trace [OF healthy_accepts] mostrarMensaje_frame
          axios_frame n) (simp add: typed_def initial_def)
  have "js ''/employee'' \<noteq> js ''/empleado''" by (simp add: js_def)
  then show ?thesis unfolding tr by simp
qed

text \<open>
  Claim C9, amended. For an input that is not blank, the first request sent is a
  \<^verbatim>\<open>POST\<close> to \<^verbatim>\<open>API_URL\<close> followed by \<^verbatim>\<open>/empleado\<close>, whose body has the one
  field \<^verbatim>\<open>nombre\<close> with the trimmed name: the input is that name between two runs of
  white space, and the name neither starts nor ends with white space. When the answer to it has a status in
  200..299, the operation takes its success path (the input field is cleared and the read
  request follows), and the final state does not depend on that answer: any other status
  in 200..299 with any other body gives the same state.
\<close>

theorem agregarEmpleado_write_request:
  assumes ne: "trim (nombreInput s) \<noteq> []"
  shows "(\<exists>rest. trace (agregarEmpleado srv s) =
            trace s @ Request (API_URL @ js ''/empleado'')
              \<lparr>method = js ''POST'', data = Some [(js ''nombre'', trim (nombreInput s))]\<rparr> # rest) \<and>
         (\<forall>lat st body st' body'.
            srv (n_requests (trace s)) endpoint (POST_options (trim (nombreInput s))) = (lat, Reply st body) \<and>
            200 \<le> st \<and> st < 300 \<and> 200 \<le> st' \<and> st' < 300 \<longrightarrow>
              nombreInput (agregarEmpleado srv s) = [] \<and>
              n_requests (trace (agregarEmpleado srv s)) \<ge> n_requests (trace s) + 2 \<and>
              agregarEmpleado (srv(n_requests (trace s) := \<lambda>u opts. (lat, Reply st' body'))) s =
                agregarEmpleado srv s) \<and>
         (\<exists>pre post. nombreInput s = pre @ trim (nombreInput s) @ post \<and>
            (\<forall>c\<in>set pre. isWhiteSpace c) \<and> (\<forall>c\<in>set post. isWhiteSpace c)) \<and>
         \<not> isWhiteSpace (hd (trim (nombreInput s))) \<and>
         \<not> isWhiteSpace (last (trim (nombreInput s)))"
proof (intro conjI allI impI)
  show "\<exists>rest. trace (agregarEmpleado srv s) =
            trace s @ Request endpoint (POST_options (trim (nombreInput s))) # rest"
    using ne by (rule agregarEmpleado_first_request)
next
  fix lat st body st' body'
  let ?n = "trim (nombreInput s)"
  let ?srv' = "srv(n_requests (trace s) := \<lambda>u opts. (lat, Reply st' body'))"
  assume "srv (n_requests (trace s)) endpoint (POST_options ?n) = (lat, Reply st body) \<and>
            200 \<le> st \<and> st < 300 \<and> 200 \<le> st' \<and> st' < 300"
  then have a: "srv (n_requests (trace s)) endpoint (POST_options ?n) = (lat, Reply st body)"
    and st: "200 \<le> st" "st < 300" and st': "200 \<le> st'" "st' < 300" by simp_all
  let ?t = "advance lat (s\<lparr>isLoading := True,
                trace := trace s @ [Request endpoint (POST_options ?n)]\<rparr>)"
  let ?u = "mostrarMensaje (empleado_agregado ?n) False (?t\<lparr>nombreInput := []\<rparr>)"
  have ok: "settle (snd (srv (n_requests (trace s)) endpoint (POST_options ?n))) =
            Inr \<lparr>status = st, response_data = body\<rparr>"
    using st by (simp add: a settle_def)
  have ok': "settle (snd (?srv' (n_requests (trace s)) endpoint (POST_options ?n))) =
            Inr \<lparr>status = st', response_data = body'\<rparr>"
    using st' by (simp add: settle_def)
  have ax: "snd (axios srv endpoint (POST_options ?n) (s\<lparr>isLoading := True\<rparr>)) = ?t"
    by (simp add: axios_def a)
  have ax': "snd (axios ?srv' endpoint (POST_options ?n) (s\<lparr>isLoading := True\<rparr>)) = ?t"
    by (simp add: axios_def)
  have 1: "agregarEmpleado srv s = (obtenerEmpleados srv ?u)\<lparr>isLoading := False\<rparr>"
    using agregarEmpleado_accepted [where s = s and srv = srv, OF ne ok] by (simp only: ax)
  have 2: "agregarEmpleado ?srv' s = (obtenerEmpleados ?srv' ?u)\<lparr>isLoading := False\<rparr>"
    using agregarEmpleado_accepted [where s = s and srv = ?srv', OF ne ok'] by (simp only: ax')
  have nu: "n_requests (trace ?u) = Suc (n_requests (trace s))"
    by (simp add: mostrarMensaje_frame advance_frame n_requests_append)
  then have "\<forall>n\<ge>n_requests (trace ?u). ?srv' n = srv n" by simp
  then have 3: "obtenerEmpleados ?srv' ?u = obtenerEmpleados srv ?u"
    by (rule obtenerEmpleados_cong)
  show "agregarEmpleado ?srv' s = agregarEmpleado srv s"
    by (simp only: 1 2 3)
  show "nombreInput (agregarEmpleado srv s) = []"
    by (simp add: 1 obtenerEmpleados_frame mostrarMensaje_frame)
  obtain r w where f: "fetchWithRetry srv endpoint GET_options 0 (loading ?u) = (r, w)"
    by (cases "fetchWithRetry srv endpoint GET_options 0 (loading ?u)")
  obtain rest where w: "trace w = trace ?u @ Request endpoint GET_options # rest"
    using fetch_first_request [of srv endpoint GET_options 0 "loading ?u"] by (auto simp: f)
  have "n_requests (trace (obtenerEmpleados srv ?u)) \<ge> Suc (n_requests (trace ?u))"
    by (simp add: obtenerEmpleados_def f w mostrarMensaje_frame catch_frame n_requests_append
          split: sum.splits payload.splits)
  then show "n_requests (trace (agregarEmpleado srv s)) \<ge> n_requests (trace s) + 2"
    by (simp add: 1 nu)
next
  show "\<exists>pre post. nombreInput s = pre @ trim (nombreInput s) @ post \<and>
         (\<forall>c\<in>set pre. isWhiteSpace c) \<and> (\<forall>c\<in>set post. isWhiteSpace c)"
    by (rule trim_decomposition)
  show "\<not> isWhiteSpace (hd (trim (nombreInput s)))"
    and "\<not> isWhiteSpace (last (trim (nombreInput s)))"
    using ne by (rule trim_ends)+
qed

theorem agregarEmpleado_write_request_witness:
  "(\<exists>rest. trace (agregarEmpleado healthy (typed (js '' Carla ''))) =
      Request (API_URL @ js ''/empleado'')
        \<lparr>method = js ''POST'', data = Some [(js ''nombre'', js ''Carla'')]\<rparr> # rest) \<and>
   nombreInput (agregarEmpleado healthy (typed (js '' Carla ''))) = [] \<and>
   agregarEmpleado (healthy(0 := \<lambda>u opts. (30, Reply 204 (Otro [])))) (typed (js '' Carla '')) =
     agregarEmpleado healthy (typed (js '' Carla ''))"
proof -
  have n: "trim (nombreInput (typed (js '' Carla ''))) = js ''Carla''"
    by (simp add: typed_def initial_def trim_def js_def isWhiteSpace_def)
  have ne: "trim (nombreInput (typed (js '' Carla ''))) \<noteq> []"
    unfolding n by (simp add: js_def)
  have h: "healthy 0 endpoint (POST_options (js ''Carla'')) = (30, Reply 200 (Lista [B3, A1]))"
    by (simp add: healthy_def scripted_def)
  have z: "n_requests (trace (typed (js '' Carla ''))) = 0" "trace (typed (js '' Carla '')) = []"
    by (simp_all add: typed_def initial_def)
  note w = agregarEmpleado_write_request [OF ne, of healthy, unfolded n z]
  have "200 \<le> (200::nat) \<and> (200::nat) < 300 \<and> 200 \<le> (204::nat) \<and> (204::nat) < 300"
    by simp
  with h have "nombreInput (agregarEmpleado healthy (typed (js '' Carla ''))) = [] \<and>
      agregarEmpleado (healthy(0 := \<lambda>u opts. (30, Reply 204 (Otro [])))) (typed (js '' Carla '')) =
        agregarEmpleado healthy (typed (js '' Carla ''))"
    using conjunct1 [OF conjunct2 [OF w], rule_format, of 30 200 "Lista [B3, A1]" 204 "Otro []"]
    by simp
  with conjunct1 [OF w] show ?thesis by simp
qed

section \<open>Refreshing the list\<close>

text \<open>
  Claim C6 as stated does not hold. For the response of its example, two objects with
  the fields \<^verbatim>\<open>id_employee\<close> and \<^verbatim>\<open>name\<close>, the comparator reads
  \<^verbatim>\<open>id_empleado\<close> and gets \<^verbatim>\<open>undefined\<close> on both sides, so the array keeps the order
  in which it came (3 before 1), and the template, which reads \<^verbatim>\<open>nombre\<close> and
  \<^verbatim>\<open>id_empleado\<close>, renders two rows with no name and no number. The message still
  counts two.
\<close>

theorem obtenerEmpleados_employee_fields:
  "empleados (obtenerEmpleados anglophone initial) = [B3_employee, A1_employee] \<and>
   map fila (empleados (obtenerEmpleados anglophone initial)) = [(None, None), (None, None)] \<and>
   map fila (empleados (obtenerEmpleados anglophone initial)) \<noteq>
     [(Some (js ''A''), Some 1), (Some (js ''B''), Some 3)] \<and>
   mensajeEstado (obtenerEmpleados anglophone initial) = js ''Lista actualizada (2) empleados''"
proof -
  have h: "fst (fetchWithRetry anglophone endpoint GET_options 0 (loading initial)) =
           Inr \<lparr>status = 200, response_data = Lista [B3_employee, A1_employee]\<rparr>"
    using anglophone_accepts by (subst fetch_ok) simp_all
  have s: "Array_sort [B3_employee, A1_employee] = [B3_employee, A1_employee]"
    by (simp add: Array_sort_def SortCompare_def comparefn_def leer_id_empleado_def
          B3_employee_def A1_employee_def)
  have e: "empleados (obtenerEmpleados anglophone initial) = [B3_employee, A1_employee]"
    and m: "mensajeEstado (obtenerEmpleados anglophone initial) = js ''Lista actualizada (2) empleados''"
    unfolding obtenerEmpleados_ok [OF h, of "[B3_employee, A1_employee]", simplified]
    by (simp_all add: mostrarMensaje_frame s lista_actualizada_def number_toString_digit js_def)
  have f: "map fila [B3_employee, A1_employee] = [(None, None), (None, None)]"
    by (simp add: B3_employee_def A1_employee_def fila_Sin)
  with e m show ?thesis by simp
qed

text \<open>
  Claim C6, amended. When the retrying client called by \<^verbatim>\<open>obtenerEmpleados\<close>
  resolves with an array of records that have the fields \<^verbatim>\<open>id_empleado\<close> and
  \<^verbatim>\<open>nombre\<close>, the list of the page is that array sorted by \<^verbatim>\<open>id_empleado\<close>
  (ascending, with the same elements), whatever the list held before, and each row shows
  the name and the number of its record. The message is the text
  \<^verbatim>\<open>Lista actualizada (N) empleados\<close>, where N is the number of records written in
  decimal digits without a leading zero; the error and loading flags are off. For the
  response with employee 3 named B and employee 1 named A, the rows are A (#1) and then
  B (#3), and N is 2.
\<close>

theorem obtenerEmpleados_success:
  assumes "fst (fetchWithRetry srv endpoint GET_options 0 (loading s)) = Inr resp"
    and "response_data resp = Lista (map Emp es)"
  shows "empleados (obtenerEmpleados srv s) = map Emp (sort_key id_empleado es) \<and>
         sorted (map id_empleado (sort_key id_empleado es)) \<and>
         mset (sort_key id_empleado es) = mset es \<and>
         map fila (empleados (obtenerEmpleados srv s)) =
           map (\<lambda>e. (Some (nombre e), Some (id_empleado e))) (sort_key id_empleado es) \<and>
         mensajeEstado (obtenerEmpleados srv s) =
           js ''Lista actualizada ('' @ number_toString (length es) @ js '') empleados'' \<and>
         (\<forall>c\<in>set (number_toString (length es)). 0x30 \<le> c \<and> c \<le> 0x39) \<and>
         decimal_value (number_toString (length es)) = length es \<and>
         (hd (number_toString (length es)) = 0x30 \<longleftrightarrow> length es = 0) \<and>
         \<not> esError (obtenerEmpleados srv s) \<and>
         \<not> isLoading (obtenerEmpleados srv s)"
proof -
  have e: "empleados (obtenerEmpleados srv s) = map Emp (sort_key id_empleado es)"
    and m: "mensajeEstado (obtenerEmpleados srv s) =
           js ''Lista actualizada ('' @ number_toString (length es) @ js '') empleados''"
    and f: "\<not> esError (obtenerEmpleados srv s)" "\<not> isLoading (obtenerEmpleados srv s)"
    unfolding obtenerEmpleados_ok [OF assms]
    by (simp_all add: mostrarMensaje_frame lista_actualizada_def Array_sort_Emp)
  have r: "map fila (map Emp (sort_key id_empleado es)) =
           map (\<lambda>e. (Some (nombre e), Some (id_empleado e))) (sort_key id_empleado es)"
    by (simp add: fila_Emp comp_def)
  show ?thesis
    using e m f r number_toString_digits [of "length es"]
      decimal_value_number_toString [of "length es"] number_toString_leading [of "length es"]
    by simp
qed

theorem obtenerEmpleados_success_witness:
  "empleados (obtenerEmpleados healthy initial) = [A1, B3] \<and>
   map fila (empleados (obtenerEmpleados healthy initial)) =
     [(Some (js ''A''), Some 1), (Some (js ''B''), Some 3)] \<and>
   mensajeEstado (obtenerEmpleados healthy initial) = js ''Lista actualizada (2) empleados''"
proof -
  have h: "fst (fetchWithRetry healthy endpoint GET_options 0 (loading initial)) =
           Inr \<lparr>status = 200, response_data = Lista [B3, A1]\<rparr>"
    using healthy_accepts by (subst fetch_ok) simp_all
  have d: "[B3, A1] = map Emp [\<lparr>id_empleado = 3, nombre = js ''B''\<rparr>,
                               \<lparr>id_empleado = 1, nombre = js ''A''\<rparr>]"
    by (simp add: B3_def A1_def)
  show ?thesis
    using obtenerEmpleados_success [OF h, of "[\<lparr>id_empleado = 3, nombre = js ''B''\<rparr>,
                               \<lparr>id_empleado = 1, nombre = js ''A''\<rparr>]"] d
    by (simp add: B3_def A1_def js_def number_toString_digit fila_Emp)
qed

text \<open>
  Claim C10. When a run of \<^verbatim>\<open>obtenerEmpleados\<close> ends in its \<^verbatim>\<open>catch\<close> block, the
  list of the page is empty afterwards, whatever it held before: it is emptied before the
  request and nothing on the failure path fills it again.
\<close>

theorem obtenerEmpleados_failure_empties:
  assumes "refresh_failed srv s"
  shows "empleados (obtenerEmpleados srv s) = [] \<and> esError (obtenerEmpleados srv s) \<and>
         \<not> isLoading (obtenerEmpleados srv s)"
proof -
  obtain r t where f: "fetchWithRetry srv endpoint GET_options 0 (loading s) = (r, t)"
    by (cases "fetchWithRetry srv endpoint GET_options 0 (loading s)")
  have t: "empleados t = []"
    using fetch_frame(1) [of srv endpoint GET_options 0 "loading s"] by (simp add: f)
  show ?thesis
    using assms t
    by (simp add: refresh_failed_def obtenerEmpleados_def f catch_frame
          split: sum.splits payload.splits)
qed

theorem obtenerEmpleados_failure_empties_witness:
  "empleados listed = [A1, B3] \<and> empleados (obtenerEmpleados down listed) = [] \<and>
   esError (obtenerEmpleados down listed)"
proof -
  have "fst (fetchWithRetry down endpoint GET_options 0 (loading listed)) =
        Inl (NetworkError (js ''Network Error''))"
    using fetch_exhausted(1) [OF _ down_rejects, of endpoint GET_options "loading listed"]
    by simp
  then have "refresh_failed down listed"
    by (simp add: refresh_failed_def)
  from obtenerEmpleados_failure_empties [OF this] show ?thesis
    by (simp add: listed_def)
qed

section \<open>What the page shows after retry exhaustion\<close>

text \<open>
  Claim C8 as stated does not hold. After four failed attempts the two operations do not
  show the same message:
  \<^verbatim>\<open>obtenerEmpleados\<close> shows the message about the connection to the server,
  \<^verbatim>\<open>agregarEmpleado\<close> the message about adding the employee.
\<close>

theorem exhaustion_messages_differ:
  "mensajeEstado (obtenerEmpleados down initial) = js ''Error al conectar con el servidor.'' \<and>
   mensajeEstado (agregarEmpleado down (typed (js ''Carla''))) = js ''Error al agregar empleado.'' \<and>
   mensajeEstado (agregarEmpleado down (typed (js ''Carla''))) \<noteq>
     mensajeEstado (obtenerEmpleados down initial)"
proof -
  have ne: "trim (nombreInput (typed (js ''Carla''))) \<noteq> []"
    by (simp add: typed_def trim_Carla) (simp add: js_def)
  have 1: "mensajeEstado (obtenerEmpleados down initial) = js ''Error al conectar con el servidor.''"
    by (subst obtenerEmpleados_exhausted [OF _ down_rejects]) (simp_all add: catch_frame)
  have 2: "mensajeEstado (agregarEmpleado down (typed (js ''Carla''))) = js ''Error al agregar empleado.''"
    by (subst agregarEmpleado_exhausted [OF ne _ down_rejects]) (simp_all add: mostrarMensaje_frame)
  have "js ''Error al agregar empleado.'' \<noteq> js ''Error al conectar con el servidor.''"
    by (simp add: js_def)
  with 1 2 show ?thesis by simp
qed

text \<open>
  Claim C8, amended. After retry exhaustion each operation shows its own fixed error
  message, with the error flag set, whatever the four failures were (no answer, or an
  answer with a status outside 200..299): \<^verbatim>\<open>obtenerEmpleados\<close> shows
  \<^verbatim>\<open>Error al conectar con el servidor.\<close> and \<^verbatim>\<open>agregarEmpleado\<close> shows
  \<^verbatim>\<open>Error al agregar empleado.\<close>
\<close>

theorem exhaustion_messages:
  assumes "length errs = 4"
  shows "(rejects srv endpoint GET_options (n_requests (trace s)) errs \<longrightarrow>
            mensajeEstado (obtenerEmpleados srv s) = js ''Error al conectar con el servidor.'' \<and>
            esError (obtenerEmpleados srv s)) \<and>
         (trim (nombreInput s) \<noteq> [] \<and>
          rejects srv endpoint (POST_options (trim (nombreInput s))) (n_requests (trace s)) errs \<longrightarrow>
            mensajeEstado (agregarEmpleado srv s) = js ''Error al agregar empleado.'' \<and>
            esError (agregarEmpleado srv s))"
proof (intro conjI impI)
  assume r: "rejects srv endpoint GET_options (n_requests (trace s)) errs"
  show "mensajeEstado (obtenerEmpleados srv s) = js ''Error al conectar con el servidor.''"
    and "esError (obtenerEmpleados srv s)"
    unfolding obtenerEmpleados_exhausted [OF assms r] by (simp_all add: catch_frame)
next
  assume "trim (nombreInput s) \<noteq> [] \<and>
    rejects srv endpoint (POST_options (trim (nombreInput s))) (n_requests (trace s)) errs"
  then have ne: "trim (nombreInput s) \<noteq> []"
    and r: "rejects srv endpoint (POST_options (trim (nombreInput s))) (n_requests (trace s)) errs"
    by simp_all
  show "mensajeEstado (agregarEmpleado srv s) = js ''Error al agregar empleado.''"
    and "esError (agregarEmpleado srv s)"
    unfolding agregarEmpleado_exhausted [OF ne assms r] by (simp_all add: mostrarMensaje_frame)
qed

theorem exhaustion_messages_witness:
  "mensajeEstado (obtenerEmpleados mixed (typed (js ''Carla''))) =
     js ''Error al conectar con el servidor.'' \<and>
   esError (obtenerEmpleados mixed (typed (js ''Carla''))) \<and>
   mensajeEstado (agregarEmpleado mixed (typed (js ''Carla''))) = js ''Error al agregar empleado.'' \<and>
   esError (agregarEmpleado mixed (typed (js ''Carla'')))"
proof -
  have ne: "trim (nombreInput (typed (js ''Carla''))) \<noteq> []"
    by (simp add: typed_def trim_Carla) (simp add: js_def)
  have r: "rejects mixed url opts (n_requests (trace (typed (js ''Carla''))))
             [NetworkError (js ''timeout''), BadStatus 500 (Otro []), BadStatus 404 (Otro []),
              NetworkError (js ''timeout'')]" for url opts
    by (simp add: rejects_def mixed_def scripted_def settle_def upt_rec typed_def initial_def)
  show ?thesis
    using ne r exhaustion_messages
      [of "[NetworkError (js ''timeout''), BadStatus 500 (Otro []), BadStatus 404 (Otro []),
            NetworkError (js ''timeout'')]" mixed "typed (js ''Carla'')"]
    by simp
qed

end
